theory Spec2Isabelle
  imports Main "HOL-Library.AList"
begin

section \<open>JavaScript strings\<close>

text \<open>
  A JavaScript string is a sequence of UTF-16 code units. Both scripts only ever compare
  single characters with ASCII characters, so a string is modelled as the list of its code
  units, each a natural number. \<open>js\<close> turns a literal of the source into that form.
\<close>

type_synonym jstring = "nat list"

definition js :: "string \<Rightarrow> jstring" where
  "js s = map of_char s"

definition DQUOTE :: nat where "DQUOTE = 34"
definition COMMA :: nat where "COMMA = 44"
definition CR :: nat where "CR = 13"
definition LF :: nat where "LF = 10"
definition BAR :: nat where "BAR = 124"
definition ZERO :: nat where "ZERO = 48"

text \<open>
  \<open>String.prototype.trim\<close> removes the code units of the WhiteSpace and LineTerminator
  productions of ECMAScript from both ends: TAB, LF, VT, FF, CR, SP, NBSP, U+1680,
  U+2000..U+200A, U+2028, U+2029, U+202F, U+205F, U+3000 and U+FEFF.
\<close>

definition is_ws :: "nat \<Rightarrow> bool" where
  "is_ws c = (c \<in> {9, 10, 11, 12, 13, 32, 160, 5760, 8232, 8233, 8239, 8287, 12288, 65279}
              \<or> (8192 \<le> c \<and> c \<le> 8202))"

definition trim :: "jstring \<Rightarrow> jstring" where
  "trim s = rev (dropWhile is_ws (rev (dropWhile is_ws s)))"

text \<open>\<open>s.padStart(n, '0')\<close>: zeros in front up to length \<open>n\<close>, nothing when \<open>s\<close> is long enough.\<close>

definition padStart :: "nat \<Rightarrow> jstring \<Rightarrow> jstring" where
  "padStart n s = replicate (n - length s) ZERO @ s"

section \<open>The CSV row parser\<close>

text \<open>
  \<open>parseRow\<close> of \<open>parseCSV\<close> (geo-enrich.js) and \<open>parseRow\<close> of the metro script are the
  same loop: the first walks the line by index (code units), the second with \<open>for ... of\<close>
  (code points). A code point outside the BMP is two surrogate code units, neither of
  which is \<open>"\<close>, \<open>,\<close> or \<open>\r\<close>, and both are appended to \<open>current\<close> in order, so the two
  loops compute the same function of the code units. The loop state is
  \<open>fields\<close>, \<open>current\<close> and \<open>inQuote\<close>.
\<close>

fun parseRow_loop :: "jstring \<Rightarrow> jstring list \<Rightarrow> jstring \<Rightarrow> bool \<Rightarrow> jstring list" where
  "parseRow_loop [] fields current inQuote = fields @ [trim current]"
| "parseRow_loop (c # cs) fields current inQuote =
     (if c = DQUOTE then parseRow_loop cs fields current (\<not> inQuote)
      else if c = COMMA \<and> \<not> inQuote then parseRow_loop cs (fields @ [trim current]) [] inQuote
      else if c = CR then parseRow_loop cs fields current inQuote
      else parseRow_loop cs fields (current @ [c]) inQuote)"

definition parseRow :: "jstring \<Rightarrow> jstring list" where
  "parseRow line = parseRow_loop line [] [] False"




section \<open>Arrays, maps and header tests\<close>

text \<open>
  \<open>text.trim().split('\n')\<close>: the pieces between line feeds; an empty text gives one empty
  line, so \<open>lines[0]\<close> always exists.
\<close>

fun split_loop :: "nat \<Rightarrow> jstring \<Rightarrow> jstring \<Rightarrow> jstring list" where
  "split_loop sep [] current = [current]"
| "split_loop sep (c # cs) current =
     (if c = sep then current # split_loop sep cs [] else split_loop sep cs (current @ [c]))"

definition split_str :: "nat \<Rightarrow> jstring \<Rightarrow> jstring list" where
  "split_str sep s = split_loop sep s []"

definition text_lines :: "jstring \<Rightarrow> jstring list" where
  "text_lines data = split_str LF (trim data)"

text \<open>
  \<open>parseCSV\<close> returns \<open>{ header, rows }\<close>, here a pair. The list of lines is never empty
  (\<open>text_lines_not_Nil\<close> below), so the first case is never taken.
\<close>

definition parseCSV :: "jstring \<Rightarrow> jstring list \<times> jstring list list" where
  "parseCSV data =
     (case text_lines data of
        [] \<Rightarrow> ([], [])
      | line0 # rest \<Rightarrow> (parseRow line0, map parseRow rest))"

text \<open>
  \<open>row[i]\<close> is \<open>undefined\<close> when \<open>i\<close> is \<open>-1\<close> (the column was not found) or past the end of
  the row. \<open>row[i] || ''\<close> turns \<open>undefined\<close> and the empty string into the empty string.
\<close>

definition at :: "'a list \<Rightarrow> int \<Rightarrow> 'a option" where
  "at row i = (if 0 \<le> i \<and> i < int (length row) then Some (row ! nat i) else None)"

definition cell :: "jstring list \<Rightarrow> int \<Rightarrow> jstring" where
  "cell row i = (case at row i of None \<Rightarrow> [] | Some v \<Rightarrow> v)"

fun findIndex_from :: "('a \<Rightarrow> bool) \<Rightarrow> 'a list \<Rightarrow> int \<Rightarrow> int" where
  "findIndex_from P [] i = - 1"
| "findIndex_from P (x # xs) i = (if P x then i else findIndex_from P xs (i + 1))"

definition findIndex :: "('a \<Rightarrow> bool) \<Rightarrow> 'a list \<Rightarrow> int" where
  "findIndex P xs = findIndex_from P xs 0"

definition indexOf :: "'a list \<Rightarrow> 'a \<Rightarrow> int" where
  "indexOf xs x = findIndex (\<lambda>y. y = x) xs"

text \<open>
  A JavaScript \<open>Map\<close> keeps its entries in insertion order; \<open>set\<close> on a key that is present
  replaces the value in place. That is an association list with \<open>AList.update\<close>, read with
  \<open>map_of\<close>; \<open>size\<close> is its length.
\<close>

type_synonym ('k, 'v) jsmap = "('k \<times> 'v) list"

definition map_set :: "'k \<Rightarrow> 'v \<Rightarrow> ('k, 'v) jsmap \<Rightarrow> ('k, 'v) jsmap" where
  "map_set k v m = AList.update k v m"

definition map_get :: "('k, 'v) jsmap \<Rightarrow> 'k \<Rightarrow> 'v option" where
  "map_get m k = map_of m k"

definition map_has :: "('k, 'v) jsmap \<Rightarrow> 'k \<Rightarrow> bool" where
  "map_has m k = (map_of m k \<noteq> None)"

text \<open>A string value is truthy when it is defined and not empty.\<close>

definition truthy :: "jstring option \<Rightarrow> bool" where
  "truthy v = (case v of None \<Rightarrow> False | Some s \<Rightarrow> s \<noteq> [])"

text \<open>
  The header tests are regular expressions with the \<open>i\<close> flag and ASCII patterns. Without
  the \<open>u\<close> flag a code unit matches an ASCII letter of the pattern only when it is that
  letter in upper or lower case, so the comparison is on \<open>ascii_upper\<close>. \<open>ci_contains p\<close> is
  \<open>/p/i.test\<close>; \<open>ci_then p q\<close> is \<open>/p.*q/i.test\<close>, where \<open>.\<close> matches every code unit but the
  line terminators LF, CR, U+2028 and U+2029; \<open>ci_whole p\<close> is \<open>/^p$/i.test\<close>.
\<close>

definition ascii_upper :: "nat \<Rightarrow> nat" where
  "ascii_upper c = (if 97 \<le> c \<and> c \<le> 122 then c - 32 else c)"

definition ascii_lower :: "nat \<Rightarrow> nat" where
  "ascii_lower c = (if 65 \<le> c \<and> c \<le> 90 then c + 32 else c)"

fun ci_prefix :: "jstring \<Rightarrow> jstring \<Rightarrow> bool" where
  "ci_prefix [] s = True"
| "ci_prefix (p # ps) [] = False"
| "ci_prefix (p # ps) (c # cs) = (ascii_upper p = ascii_upper c \<and> ci_prefix ps cs)"

fun ci_contains :: "jstring \<Rightarrow> jstring \<Rightarrow> bool" where
  "ci_contains p [] = ci_prefix p []"
| "ci_contains p (c # cs) = (ci_prefix p (c # cs) \<or> ci_contains p cs)"

definition line_terminator :: "nat \<Rightarrow> bool" where
  "line_terminator c = (c \<in> {10, 13, 8232, 8233})"

fun after_dots :: "jstring \<Rightarrow> jstring \<Rightarrow> bool" where
  "after_dots q [] = ci_prefix q []"
| "after_dots q (c # cs) = (ci_prefix q (c # cs) \<or> (\<not> line_terminator c \<and> after_dots q cs))"

fun ci_then :: "jstring \<Rightarrow> jstring \<Rightarrow> jstring \<Rightarrow> bool" where
  "ci_then p q [] = (ci_prefix p [] \<and> after_dots q [])"
| "ci_then p q (c # cs) =
     ((ci_prefix p (c # cs) \<and> after_dots q (drop (length p) (c # cs))) \<or> ci_then p q cs)"

definition ci_whole :: "jstring \<Rightarrow> jstring \<Rightarrow> bool" where
  "ci_whole p s = (ci_prefix p s \<and> length s = length p)"

text \<open>
  \<open>s.replace(/ a$| b$| .../, '')\<close> with literal alternatives, each anchored at the end of the
  string and no \<open>g\<close> flag: the match is at the leftmost position whose remainder is one of
  the alternatives, and the string is cut there.
\<close>

fun replace_end :: "jstring list \<Rightarrow> jstring \<Rightarrow> jstring" where
  "replace_end alts [] = []"
| "replace_end alts (c # cs) = (if c # cs \<in> set alts then [] else c # replace_end alts cs)"

text \<open>\<open>v.replace(/"/g, '')\<close>\<close>

definition strip_quotes :: "jstring \<Rightarrow> jstring" where
  "strip_quotes v = filter (\<lambda>c. c \<noteq> DQUOTE) v"

text \<open>
  \<open>xs.slice(start, end)\<close>: a negative index counts from the end, and both are clamped to
  the array.
\<close>

definition slice_index :: "nat \<Rightarrow> int \<Rightarrow> nat" where
  "slice_index len k = (if k < 0 then nat (max (int len + k) 0) else min (nat k) len)"

definition slice :: "'a list \<Rightarrow> int \<Rightarrow> int \<Rightarrow> 'a list" where
  "slice xs start stop =
     (let from = slice_index (length xs) start; to = slice_index (length xs) stop
      in take (to - from) (drop from xs))"

section \<open>The housing_stats table\<close>

text \<open>
  A row of \<open>housing_stats\<close>, with the columns the scripts read or write; \<open>None\<close> is SQL
  \<open>NULL\<close>. The other columns of the table are the record's extension: no statement of the
  scripts names them.
\<close>

record db_row =
  zip_code :: jstring
  state_abbr :: "jstring option"
  county_name :: "jstring option"
  metro_area :: "jstring option"
  updated_at :: nat

type_synonym 'a table = "'a db_row_scheme list"

text \<open>\<open>col IS NULL OR col = ''\<close>, which is also JavaScript's \<open>!v || v === ''\<close> on the value read.\<close>

definition missing :: "jstring option \<Rightarrow> bool" where
  "missing v = (v = None \<or> v = Some [])"

text \<open>The \<open>SELECT\<close> statements. A result without \<open>ORDER BY\<close> is taken in the table's order.\<close>

record gaps =
  g_total :: nat
  missing_state :: nat
  missing_county :: nat
  missing_metro :: nat

definition select_gaps :: "'a table \<Rightarrow> gaps" where
  "select_gaps tbl =
     \<lparr> g_total = length tbl,
       missing_state = length (filter (\<lambda>r. missing (state_abbr r)) tbl),
       missing_county = length (filter (\<lambda>r. missing (county_name r)) tbl),
       missing_metro = length (filter (\<lambda>r. missing (metro_area r)) tbl) \<rparr>"

definition select_allZips :: "'a table \<Rightarrow> jstring list" where
  "select_allZips tbl = remdups (map zip_code tbl)"

definition select_dbZips :: "'a table \<Rightarrow> 'a table" where
  "select_dbZips tbl =
     filter (\<lambda>r. missing (state_abbr r) \<or> missing (county_name r) \<or> missing (metro_area r)) tbl"

definition select_counties :: "'a table \<Rightarrow> (jstring option \<times> jstring option) list" where
  "select_counties tbl =
     remdups (map (\<lambda>r. (state_abbr r, county_name r))
       (filter (\<lambda>r. \<not> missing (state_abbr r) \<and> \<not> missing (county_name r) \<and> missing (metro_area r)) tbl))"

definition select_zips :: "'a table \<Rightarrow> 'a table" where
  "select_zips tbl = filter (\<lambda>r. \<not> missing (state_abbr r) \<and> missing (metro_area r)) tbl"

definition select_missing_metro :: "'a table \<Rightarrow> nat" where
  "select_missing_metro tbl = length (filter (\<lambda>r. missing (metro_area r)) tbl)"

text \<open>
  One entry of \<open>updates\<close> in geo-enrich.js: \<open>{ zip_code, state_abbr, county_name, metro_area }\<close>,
  a field \<open>null\<close> unless filled. In the metro script: \<open>{ zip_code, metro_area }\<close>.
\<close>

record geo_update =
  u_zip_code :: jstring
  u_state_abbr :: "jstring option"
  u_county_name :: "jstring option"
  u_metro_area :: "jstring option"

record metro_update =
  m_zip_code :: jstring
  m_metro_area :: jstring

text \<open>
  The batch statement of geo-enrich.js,
  \<open>UPDATE housing_stats h SET state_abbr = COALESCE(v.new_state, h.state_abbr), ...,
  updated_at = NOW() FROM (SELECT unnest($1) ..., unnest($4)) v WHERE h.zip_code = v.zip_code\<close>.
  The four arrays have the batch's length, so \<open>v\<close> has one row per update of the batch. A
  table row that joins with several rows of \<open>v\<close> is updated once, from one of them
  (PostgreSQL does not say which); the model takes the first. \<open>rowCount\<close> is the number of
  table rows updated.
\<close>

definition coalesce :: "'v option \<Rightarrow> 'v option \<Rightarrow> 'v option" where
  "coalesce new old = (case new of None \<Rightarrow> old | Some v \<Rightarrow> Some v)"

definition update_row_geo :: "nat \<Rightarrow> geo_update list \<Rightarrow> 'a db_row_scheme \<Rightarrow> 'a db_row_scheme" where
  "update_row_geo now batch h =
     (case find (\<lambda>u. u_zip_code u = zip_code h) batch of
        None \<Rightarrow> h
      | Some v \<Rightarrow> h\<lparr> state_abbr := coalesce (u_state_abbr v) (state_abbr h),
                      county_name := coalesce (u_county_name v) (county_name h),
                      metro_area := coalesce (u_metro_area v) (metro_area h),
                      updated_at := now \<rparr>)"

definition sql_update_geo :: "nat \<Rightarrow> geo_update list \<Rightarrow> 'a table \<Rightarrow> 'a table" where
  "sql_update_geo now batch tbl = map (update_row_geo now batch) tbl"

definition rowCount_geo :: "geo_update list \<Rightarrow> 'a table \<Rightarrow> nat" where
  "rowCount_geo batch tbl = length (filter (\<lambda>h. zip_code h \<in> u_zip_code ` set batch) tbl)"

text \<open>
  The batch statement of the metro script,
  \<open>UPDATE housing_stats h SET metro_area = v.metro, updated_at = NOW()
  FROM (SELECT unnest($1) as zip_code, unnest($2) as metro) v WHERE h.zip_code = v.zip_code\<close>.
\<close>

definition update_row_metro :: "nat \<Rightarrow> metro_update list \<Rightarrow> 'a db_row_scheme \<Rightarrow> 'a db_row_scheme" where
  "update_row_metro now batch h =
     (case find (\<lambda>u. m_zip_code u = zip_code h) batch of
        None \<Rightarrow> h
      | Some v \<Rightarrow> h\<lparr> metro_area := Some (m_metro_area v), updated_at := now \<rparr>)"

definition sql_update_metro :: "nat \<Rightarrow> metro_update list \<Rightarrow> 'a table \<Rightarrow> 'a table" where
  "sql_update_metro now batch tbl = map (update_row_metro now batch) tbl"

definition rowCount_metro :: "metro_update list \<Rightarrow> 'a table \<Rightarrow> nat" where
  "rowCount_metro batch tbl = length (filter (\<lambda>h. zip_code h \<in> m_zip_code ` set batch) tbl)"

section \<open>geo-enrich.js: the lookup maps and the update list\<close>

text \<open>An entry of \<open>zipGeo\<close>: \<open>{ state_abbr, county_name }\<close>.\<close>

record geo =
  geo_state_abbr :: jstring
  geo_county_name :: jstring

text \<open>
  Step 2, the loop over the rows of the ZIP-to-county CSV. The column indices come from
  \<open>header.indexOf\<close> and are \<open>-1\<close> for a column that is absent.
\<close>

fun build_zipGeo :: "int \<Rightarrow> int \<Rightarrow> int \<Rightarrow> jstring list list \<Rightarrow> (jstring, geo) jsmap \<Rightarrow> (jstring, geo) jsmap" where
  "build_zipGeo stateIdx zipIdx countyIdx [] zipGeo = zipGeo"
| "build_zipGeo stateIdx zipIdx countyIdx (row # rows) zipGeo =
     (let zipc = padStart 5 (cell row zipIdx) in
      if length zipc \<noteq> 5 then build_zipGeo stateIdx zipIdx countyIdx rows zipGeo
      else
        let state = cell row stateIdx;
            county = cell row countyIdx
        in if \<not> map_has zipGeo zipc
           then build_zipGeo stateIdx zipIdx countyIdx rows
                  (map_set zipc \<lparr> geo_state_abbr = state,
                                 geo_county_name = (if county \<noteq> [] then county @ js '' County'' else []) \<rparr> zipGeo)
           else build_zipGeo stateIdx zipIdx countyIdx rows zipGeo)"

text \<open>
  Step 3, the loop over the distinct ZIP codes of the table. \<open>lookup\<close> stands for
  \<open>zipcodes.lookup\<close> of the npm package: \<open>None\<close> when it returns nothing, \<open>Some s\<close> when it
  returns an entry whose \<open>state || ''\<close> is \<open>s\<close>. The second component counts \<open>npmFills\<close>.
\<close>

fun npm_fill :: "(jstring \<Rightarrow> jstring option) \<Rightarrow> jstring list \<Rightarrow> (jstring, geo) jsmap \<times> nat \<Rightarrow> (jstring, geo) jsmap \<times> nat" where
  "npm_fill lookup [] (zipGeo, npmFills) = (zipGeo, npmFills)"
| "npm_fill lookup (zipc # zips) (zipGeo, npmFills) =
     (case map_get zipGeo zipc of
        None \<Rightarrow>
          (case lookup zipc of
             Some st \<Rightarrow> npm_fill lookup zips
                          (map_set zipc \<lparr> geo_state_abbr = st, geo_county_name = [] \<rparr> zipGeo, npmFills + 1)
           | None \<Rightarrow> npm_fill lookup zips (zipGeo, npmFills))
      | Some g \<Rightarrow>
          if geo_state_abbr g = [] then
            (case lookup zipc of
               Some st \<Rightarrow>
                 if st \<noteq> [] then npm_fill lookup zips (map_set zipc (g\<lparr> geo_state_abbr := st \<rparr>) zipGeo, npmFills + 1)
                 else npm_fill lookup zips (zipGeo, npmFills)
             | None \<Rightarrow> npm_fill lookup zips (zipGeo, npmFills))
          else npm_fill lookup zips (zipGeo, npmFills))"

text \<open>
  Step 4. With a name column, \<open>zipMetro\<close> is filled from the rows; the same loop fills
  \<open>cbsaCodes\<close> from the code column when there is no name column.
\<close>

fun build_zipMetro :: "int \<Rightarrow> int \<Rightarrow> jstring list list \<Rightarrow> (jstring, jstring) jsmap \<Rightarrow> (jstring, jstring) jsmap" where
  "build_zipMetro zipCol valCol [] zipMetro = zipMetro"
| "build_zipMetro zipCol valCol (row # rows) zipMetro =
     (let zipc = padStart 5 (cell row zipCol);
          metro = cell row valCol
      in if length zipc = 5 \<and> metro \<noteq> []
         then build_zipMetro zipCol valCol rows (map_set zipc metro zipMetro)
         else build_zipMetro zipCol valCol rows zipMetro)"

text \<open>
  \<open>nameMap.set(row[codeCol], row[titleCol])\<close>: key and value are stored as read, so either
  may be \<open>undefined\<close> (\<open>None\<close>).
\<close>

fun build_nameMap :: "int \<Rightarrow> int \<Rightarrow> jstring list list \<Rightarrow> (jstring option, jstring option) jsmap \<Rightarrow> (jstring option, jstring option) jsmap" where
  "build_nameMap codeCol titleCol [] nameMap = nameMap"
| "build_nameMap codeCol titleCol (row # rows) nameMap =
     build_nameMap codeCol titleCol rows (map_set (at row codeCol) (at row titleCol) nameMap)"

text \<open>\<open>for (const [zip, cbsa] of cbsaCodes) { const name = nameMap.get(cbsa); if (name) zipMetro.set(zip, name); }\<close>\<close>

fun names_to_zipMetro :: "(jstring option, jstring option) jsmap \<Rightarrow> (jstring \<times> jstring) list \<Rightarrow> (jstring, jstring) jsmap \<Rightarrow> (jstring, jstring) jsmap" where
  "names_to_zipMetro nameMap [] zipMetro = zipMetro"
| "names_to_zipMetro nameMap ((zipc, cbsa) # rest) zipMetro =
     (case map_get nameMap (Some cbsa) of
        Some (Some name) \<Rightarrow>
          if name \<noteq> [] then names_to_zipMetro nameMap rest (map_set zipc name zipMetro)
          else names_to_zipMetro nameMap rest zipMetro
      | _ \<Rightarrow> names_to_zipMetro nameMap rest zipMetro)"

text \<open>Step 5, the loop over the rows that have a gap. \<open>stats\<close> counts the fills.\<close>

record stats =
  s_state :: nat
  s_county :: nat
  s_metro :: nat
  s_noMatch :: nat

definition geo_state :: "geo option \<Rightarrow> jstring option" where
  "geo_state g = (case g of None \<Rightarrow> None | Some x \<Rightarrow> Some (geo_state_abbr x))"

definition geo_county :: "geo option \<Rightarrow> jstring option" where
  "geo_county g = (case g of None \<Rightarrow> None | Some x \<Rightarrow> Some (geo_county_name x))"

definition update_for :: "(jstring, geo) jsmap \<Rightarrow> (jstring, jstring) jsmap \<Rightarrow> 'a db_row_scheme \<Rightarrow> geo_update" where
  "update_for zipGeo zipMetro row =
     (let g = map_get zipGeo (zip_code row);
          metro = map_get zipMetro (zip_code row)
      in \<lparr> u_zip_code = zip_code row,
           u_state_abbr = (if missing (state_abbr row) \<and> truthy (geo_state g) then geo_state g else None),
           u_county_name = (if missing (county_name row) \<and> truthy (geo_county g) then geo_county g else None),
           u_metro_area = (if missing (metro_area row) \<and> truthy metro then metro else None) \<rparr>)"

fun build_updates :: "(jstring, geo) jsmap \<Rightarrow> (jstring, jstring) jsmap \<Rightarrow> 'a table \<Rightarrow> geo_update list \<times> stats \<Rightarrow> geo_update list \<times> stats" where
  "build_updates zipGeo zipMetro [] (updates, st) = (updates, st)"
| "build_updates zipGeo zipMetro (row # rows) (updates, st) =
     (let g = map_get zipGeo (zip_code row);
          metro = map_get zipMetro (zip_code row)
      in if g = None \<and> \<not> truthy metro
         then build_updates zipGeo zipMetro rows (updates, st\<lparr> s_noMatch := s_noMatch st + 1 \<rparr>)
         else
           let update = update_for zipGeo zipMetro row;
               st1 = (if u_state_abbr update \<noteq> None then st\<lparr> s_state := s_state st + 1 \<rparr> else st);
               st2 = (if u_county_name update \<noteq> None then st1\<lparr> s_county := s_county st1 + 1 \<rparr> else st1);
               st3 = (if u_metro_area update \<noteq> None then st2\<lparr> s_metro := s_metro st2 + 1 \<rparr> else st2);
               hasUpdate = (u_state_abbr update \<noteq> None \<or> u_county_name update \<noteq> None \<or> u_metro_area update \<noteq> None)
           in build_updates zipGeo zipMetro rows ((if hasUpdate then updates @ [update] else updates), st3))"

section \<open>The metro script: the lookup maps and the match\<close>

text \<open>
  \<open>toLowerCase\<close> and \<open>toUpperCase\<close> are Unicode case conversions of the language; the model
  takes them as the parameters \<open>lc\<close> and \<open>uc\<close>. Their restriction to ASCII letters serves
  where a concrete function is needed.
\<close>

definition ascii_toLowerCase :: "jstring \<Rightarrow> jstring" where
  "ascii_toLowerCase s = map ascii_lower s"

definition ascii_toUpperCase :: "jstring \<Rightarrow> jstring" where
  "ascii_toUpperCase s = map ascii_upper s"

definition STATE_FIPS :: "(jstring, jstring) jsmap" where
  "STATE_FIPS = map (\<lambda>(k, v). (js k, js v))
     [
      (''AL'', ''01''), (''AK'', ''02''), (''AZ'', ''04''), (''AR'', ''05''), (''CA'', ''06''), (''CO'', ''08''), (''CT'', ''09''), (''DE'', ''10''),
      (''DC'', ''11''), (''FL'', ''12''), (''GA'', ''13''), (''HI'', ''15''), (''ID'', ''16''), (''IL'', ''17''), (''IN'', ''18''), (''IA'', ''19''),
      (''KS'', ''20''), (''KY'', ''21''), (''LA'', ''22''), (''ME'', ''23''), (''MD'', ''24''), (''MA'', ''25''), (''MI'', ''26''), (''MN'', ''27''),
      (''MS'', ''28''), (''MO'', ''29''), (''MT'', ''30''), (''NE'', ''31''), (''NV'', ''32''), (''NH'', ''33''), (''NJ'', ''34''), (''NM'', ''35''),
      (''NY'', ''36''), (''NC'', ''37''), (''ND'', ''38''), (''OH'', ''39''), (''OK'', ''40''), (''OR'', ''41''), (''PA'', ''42''), (''RI'', ''44''),
      (''SC'', ''45''), (''SD'', ''46''), (''TN'', ''47''), (''TX'', ''48''), (''UT'', ''49''), (''VT'', ''50''), (''VA'', ''51''), (''WA'', ''53''),
      (''WV'', ''54''), (''WI'', ''55''), (''WY'', ''56''), (''AS'', ''60''), (''GU'', ''66''), (''MP'', ''69''), (''PR'', ''72''), (''VI'', ''78'')
     ]"

text \<open>
  \<open>STATE_FIPS[state]\<close> is a property read of a plain object: a key that is not one of the
  table's own is looked up in \<open>Object.prototype\<close>, whose members are functions or objects
  and so truthy. \<open>has_stateFips state\<close> is the truth value of \<open>STATE_FIPS[state]\<close>; a \<open>null\<close>
  state reads the key \<open>'null'\<close>, which is absent.
\<close>

definition Object_prototype_keys :: "jstring list" where
  "Object_prototype_keys = map js
     [''constructor'', ''__defineGetter__'', ''__defineSetter__'', ''hasOwnProperty'',
      ''__lookupGetter__'', ''__lookupSetter__'', ''isPrototypeOf'', ''propertyIsEnumerable'',
      ''toString'', ''valueOf'', ''__proto__'', ''toLocaleString'']"

definition has_stateFips :: "jstring \<Rightarrow> bool" where
  "has_stateFips state =
     (case map_get STATE_FIPS state of
        Some v \<Rightarrow> v \<noteq> []
      | None \<Rightarrow> state \<in> set Object_prototype_keys)"

text \<open>
  Step 2, the loop over the lines of the NBER crosswalk. A line is cut at every comma
  (\<open>split(',')\<close>, quotes or not), then each piece loses its double quotes and is trimmed.
\<close>

definition nber_fields :: "jstring \<Rightarrow> jstring list" where
  "nber_fields line = map (\<lambda>v. trim (strip_quotes v)) (split_str COMMA line)"

fun build_countyFipsToMetro :: "int \<Rightarrow> int \<Rightarrow> int \<Rightarrow> jstring list \<Rightarrow> (jstring, jstring) jsmap \<Rightarrow> (jstring, jstring) jsmap" where
  "build_countyFipsToMetro fipsCol stateCol nameCol [] countyFipsToMetro = countyFipsToMetro"
| "build_countyFipsToMetro fipsCol stateCol nameCol (line # lines) countyFipsToMetro =
     (let vals = nber_fields line;
          sf = padStart 2 (cell vals stateCol);
          cf = padStart 3 (cell vals fipsCol);
          fips = sf @ cf;
          name = cell vals nameCol
      in if length fips = 5 \<and> name \<noteq> [] \<and> name \<noteq> [DQUOTE, DQUOTE]
         then build_countyFipsToMetro fipsCol stateCol nameCol lines (map_set fips name countyFipsToMetro)
         else build_countyFipsToMetro fipsCol stateCol nameCol lines countyFipsToMetro)"

text \<open>Step 3, the loop over the lines of the county FIPS file. The key is \<open>`${state}|${name}`\<close>.\<close>

definition name_key :: "jstring \<Rightarrow> jstring \<Rightarrow> jstring" where
  "name_key state name = state @ [BAR] @ name"

definition build_suffixes :: "jstring list" where
  "build_suffixes = map js ['' county'', '' parish'', '' borough'', '' census area'',
     '' municipality'', '' city and borough'', '' city'']"

fun build_countyNameToFips :: "(jstring \<Rightarrow> jstring) \<Rightarrow> (jstring \<Rightarrow> jstring) \<Rightarrow> int \<Rightarrow> int \<Rightarrow> int \<Rightarrow> jstring list \<Rightarrow> (jstring, jstring) jsmap \<Rightarrow> (jstring, jstring) jsmap" where
  "build_countyNameToFips lc uc fipsCol nameCol stateCol [] countyNameToFips = countyNameToFips"
| "build_countyNameToFips lc uc fipsCol nameCol stateCol (line # lines) countyNameToFips =
     (let vals = parseRow line;
          fips = padStart 5 (cell vals fipsCol);
          name = lc (cell vals nameCol);
          state = uc (cell vals stateCol)
      in if length fips = 5 \<and> name \<noteq> [] \<and> state \<noteq> []
         then
           let short = trim (replace_end build_suffixes name)
           in build_countyNameToFips lc uc fipsCol nameCol stateCol lines
                (map_set (name_key state short) fips (map_set (name_key state name) fips countyNameToFips))
         else build_countyNameToFips lc uc fipsCol nameCol stateCol lines countyNameToFips)"

text \<open>
  Step 4, the loop over the rows selected for the match. Its state is \<open>updates\<close>, \<open>matched\<close>
  and \<open>unmatched\<close>.
\<close>

definition match_suffixes :: "jstring list" where
  "match_suffixes = map js ['' county'', '' parish'', '' borough'', '' census area'',
     '' municipality'']"

definition find_fips :: "(jstring, jstring) jsmap \<Rightarrow> jstring \<Rightarrow> jstring \<Rightarrow> jstring option" where
  "find_fips countyNameToFips state county =
     (let fips = map_get countyNameToFips (name_key state county)
      in if \<not> truthy fips
         then let short = trim (replace_end match_suffixes county)
              in map_get countyNameToFips (name_key state short)
         else fips)"

definition match_row :: "(jstring \<Rightarrow> jstring) \<Rightarrow> (jstring, jstring) jsmap \<Rightarrow> (jstring, jstring) jsmap \<Rightarrow> 'a db_row_scheme \<Rightarrow> metro_update list \<times> nat \<times> nat \<Rightarrow> metro_update list \<times> nat \<times> nat" where
  "match_row lc countyNameToFips countyFipsToMetro row acc =
     (case acc of (updates, matched, unmatched) \<Rightarrow>
        let county = lc (case county_name row of None \<Rightarrow> [] | Some c \<Rightarrow> c)
        in case state_abbr row of
             None \<Rightarrow> (updates, matched, unmatched)
           | Some state \<Rightarrow>
               if \<not> has_stateFips state \<or> county = [] then (updates, matched, unmatched)
               else
                 (case find_fips countyNameToFips state county of
                    None \<Rightarrow> (updates, matched, unmatched + 1)
                  | Some fips \<Rightarrow>
                      if fips = [] then (updates, matched, unmatched + 1)
                      else
                        (case map_get countyFipsToMetro fips of
                           None \<Rightarrow> (updates, matched, unmatched + 1)
                         | Some metro \<Rightarrow>
                             if metro = [] then (updates, matched, unmatched + 1)
                             else (updates @ [\<lparr> m_zip_code = zip_code row, m_metro_area = metro \<rparr>],
                                   matched + 1, unmatched))))"

fun match_rows :: "(jstring \<Rightarrow> jstring) \<Rightarrow> (jstring, jstring) jsmap \<Rightarrow> (jstring, jstring) jsmap \<Rightarrow> 'a table \<Rightarrow> metro_update list \<times> nat \<times> nat \<Rightarrow> metro_update list \<times> nat \<times> nat" where
  "match_rows lc countyNameToFips countyFipsToMetro [] acc = acc"
| "match_rows lc countyNameToFips countyFipsToMetro (row # rows) acc =
     match_rows lc countyNameToFips countyFipsToMetro rows
       (match_row lc countyNameToFips countyFipsToMetro row acc)"

section \<open>Effects: downloads, statements, output\<close>

text \<open>
  The five external files, by the URL the scripts download them from:
  \<^item> \<open>GeoDataCsv\<close>: \<open>scpike/us-state-county-zip/master/geo-data.csv\<close> (ZIP to state and county);
  \<^item> \<open>ZipCbsaCsv\<close>: \<open>mwkracht/zip_to_cbsa/.../zip_cbsa.csv\<close> (ZIP to CBSA);
  \<^item> \<open>CbsaNamesCsv\<close>: \<open>mwkracht/zip_to_cbsa/.../cbsa.csv\<close> (CBSA code to name);
  \<^item> \<open>NberCrosswalk\<close>: \<open>data.nber.org/cbsa-csa-fips-county-crosswalk/cbsa2fipsxw.csv\<close>;
  \<^item> \<open>CountyFipsMaster\<close>: \<open>kjhealy/fips-codes/master/county_fips_master.csv\<close>.
\<close>

datatype url = GeoDataCsv | ZipCbsaCsv | CbsaNamesCsv | NberCrosswalk | CountyFipsMaster

text \<open>The statements sent with \<open>pool.query\<close>; an \<open>UPDATE\<close> carries the batch of its arrays.\<close>

datatype stmt =
    SelectGaps
  | SelectAllZips
  | SelectDbZips
  | UpdateGeo "geo_update list"
  | SelectCounties
  | SelectZips
  | UpdateMetro "metro_update list"
  | SelectMissingMetro

text \<open>
  What a run does, in order. \<open>Log\<close> is one call of \<open>console.log\<close>, \<open>console.error\<close> or
  \<open>process.stdout.write\<close>: the text of its template, each interpolation written \<open>%\<close> and
  symbols outside ASCII transliterated, with the interpolated values. \<open>Download u ok\<close> and
  \<open>Query q ok\<close> say whether the promise resolved. \<open>Exit n\<close> is \<open>process.exit(n)\<close>.
\<close>

datatype val = Num int | Str jstring | StrList "jstring list" | Flag bool | Undef

datatype event =
    Log string "val list"
  | Download url bool
  | Query stmt bool
  | PoolEnd
  | Exit nat

text \<open>
  What a run depends on besides the table: the command line, the network, the npm
  package, whether the \<open>n\<close>-th call of \<open>pool.query\<close> rejects (with which message), and the
  value of \<open>NOW()\<close> in it. \<open>batch_size_arg\<close> is what \<open>parseInt\<close> returns for the
  \<open>--batch-size=\<close> argument, \<open>None\<close> for \<open>NaN\<close> (also when the argument is absent). A download
  rejects with an \<open>Error\<close>, given by its message (\<open>Inl\<close>), or resolves with the text.
\<close>

record env =
  DRY_RUN :: bool
  batch_size_arg :: "int option"
  download :: "url \<Rightarrow> jstring + jstring"
  zipcodes_lookup :: "jstring \<Rightarrow> jstring option"
  query_error :: "nat \<Rightarrow> jstring option"
  NOW :: "nat \<Rightarrow> nat"
  toLowerCase :: "jstring \<Rightarrow> jstring"
  toUpperCase :: "jstring \<Rightarrow> jstring"

text \<open>\<open>parseInt(...) || 500\<close> in geo-enrich.js: \<open>NaN\<close> and \<open>0\<close> give 500. The metro script has the constant.\<close>

definition BATCH_SIZE :: "env \<Rightarrow> int" where
  "BATCH_SIZE e = (case batch_size_arg e of None \<Rightarrow> 500 | Some n \<Rightarrow> if n = 0 then 500 else n)"

definition BATCH_SIZE_metro :: int where
  "BATCH_SIZE_metro = 500"

text \<open>
  How a run ends: \<open>main\<close> returned, the process exited with a code, or the model's fuel ran
  out inside the batch loop (\<open>Unfinished\<close>: the trace is then a prefix of the run).
\<close>

datatype outcome = Returned | Exited nat | Unfinished

record 'a result =
  outcome :: outcome
  trace :: "event list"
  final :: "'a table"

text \<open>\<open>main().catch(e => { console.error('Fatal:', e); process.exit(1); })\<close>\<close>

definition fatal :: "event list \<Rightarrow> jstring \<Rightarrow> 'a table \<Rightarrow> 'a result" where
  "fatal evs e tbl = \<lparr> outcome = Exited 1, trace = evs @ [Log ''Fatal:'' [Str e], Exit 1], final = tbl \<rparr>"

text \<open>
  The batch loop of both scripts,
  \<open>for (let i = 0; i < updates.length; i += BATCH_SIZE) { const batch = updates.slice(i, i + BATCH_SIZE); ... }\<close>,
  with the statement (\<open>mk\<close>), its effect on the table (\<open>exec\<close>) and its \<open>rowCount\<close> (\<open>cnt\<close>) as
  parameters. \<open>n\<close> numbers the calls of \<open>pool.query\<close>. The fuel bounds the number of loop
  tests. The percentage of the progress line is a floating-point value and is left out.
\<close>

datatype loop_end = LoopDone nat | LoopFailed jstring | LoopUnfinished

record 'a loop_state =
  ls_trace :: "event list"
  ls_table :: "'a table"
  ls_totalUpdated :: nat

fun batch_loop :: "nat \<Rightarrow> env \<Rightarrow> ('u list \<Rightarrow> stmt) \<Rightarrow> (nat \<Rightarrow> 'u list \<Rightarrow> 'a table \<Rightarrow> 'a table) \<Rightarrow> ('u list \<Rightarrow> 'a table \<Rightarrow> nat) \<Rightarrow> int \<Rightarrow> 'u list \<Rightarrow> int \<Rightarrow> nat \<Rightarrow> 'a loop_state \<Rightarrow> loop_end \<times> 'a loop_state" where
  "batch_loop 0 e mk exec cnt bs updates i n st = (LoopUnfinished, st)"
| "batch_loop (Suc fuel) e mk exec cnt bs updates i n st =
     (if i < int (length updates) then
        let batch = slice updates i (i + bs) in
        case query_error e n of
          Some err \<Rightarrow> (LoopFailed err, st\<lparr> ls_trace := ls_trace st @ [Query (mk batch) False] \<rparr>)
        | None \<Rightarrow>
            let totalUpdated = ls_totalUpdated st + cnt batch (ls_table st)
            in batch_loop fuel e mk exec cnt bs updates (i + bs) (n + 1)
                 \<lparr> ls_trace = ls_trace st @
                     [Query (mk batch) True,
                      Log ''  Progress: %/% - % rows''
                        [Num (i + int (length batch)), Num (int (length updates)), Num (int totalUpdated)]],
                   ls_table = exec (NOW e n) batch (ls_table st),
                   ls_totalUpdated = totalUpdated \<rparr>
      else (LoopDone n, st))"

section \<open>geo-enrich.js: main\<close>

text \<open>Step 2: the \<open>try\<close> block that downloads the ZIP-to-county file and fills \<open>zipGeo\<close>.\<close>

definition geo_step2 :: "env \<Rightarrow> (jstring, geo) jsmap \<times> event list" where
  "geo_step2 e =
     (case download e GeoDataCsv of
        Inl msg \<Rightarrow> ([], [Download GeoDataCsv False, Log ''  Download failed: %'' [Str msg]])
      | Inr csvData \<Rightarrow>
          (case parseCSV csvData of (header, rows) \<Rightarrow>
             let stateIdx = indexOf header (js ''state_abbr'');
                 zipIdx = indexOf header (js ''zipcode'');
                 countyIdx = indexOf header (js ''county'');
                 zipGeo = build_zipGeo stateIdx zipIdx countyIdx rows []
             in (zipGeo,
                 [Download GeoDataCsv True,
                  Log ''  Downloaded % ZIP-county mappings'' [Num (int (length rows))],
                  Log ''  Built ZIP->county map: % entries'' [Num (int (length zipGeo))]])))"

text \<open>
  Step 4: the \<open>try\<close> block that downloads the ZIP-to-CBSA file and fills \<open>zipMetro\<close>; when
  the file has a CBSA column and no name column, the inner \<open>try\<close> downloads the CBSA names.
\<close>

definition is_zip_header :: "jstring \<Rightarrow> bool" where
  "is_zip_header h = ci_contains (js ''zip'') h"

definition is_cbsa_header :: "jstring \<Rightarrow> bool" where
  "is_cbsa_header h = ci_contains (js ''cbsa'') h"

definition is_metro_header :: "jstring \<Rightarrow> bool" where
  "is_metro_header h =
     (ci_then (js ''metro'') (js ''name'') h \<or> ci_then (js ''cbsa'') (js ''title'') h \<or> ci_contains (js ''name'') h)"

definition is_code_header :: "jstring \<Rightarrow> bool" where
  "is_code_header h = (ci_then (js ''cbsa'') (js ''code'') h \<or> ci_contains (js ''code'') h)"

definition is_title_header :: "jstring \<Rightarrow> bool" where
  "is_title_header h = (ci_contains (js ''title'') h \<or> ci_contains (js ''name'') h)"

definition geo_names :: "env \<Rightarrow> (jstring \<times> jstring) list \<Rightarrow> (jstring, jstring) jsmap \<times> event list" where
  "geo_names e cbsaCodes =
     (case download e CbsaNamesCsv of
        Inl msg \<Rightarrow> ([], [Download CbsaNamesCsv False, Log ''  CBSA names download failed: %'' [Str msg]])
      | Inr namesData \<Rightarrow>
          (case parseCSV namesData of (header, rows) \<Rightarrow>
             let codeCol = findIndex is_code_header header;
                 titleCol = findIndex is_title_header header
             in if codeCol \<ge> 0 \<and> titleCol \<ge> 0
                then
                  let nameMap = build_nameMap codeCol titleCol rows []
                  in (names_to_zipMetro nameMap cbsaCodes [],
                      [Download CbsaNamesCsv True, Log ''  Loaded % CBSA names'' [Num (int (length nameMap))]])
                else ([], [Download CbsaNamesCsv True])))"

definition geo_step4 :: "env \<Rightarrow> (jstring, jstring) jsmap \<times> event list" where
  "geo_step4 e =
     (case download e ZipCbsaCsv of
        Inl msg \<Rightarrow>
          ([], [Download ZipCbsaCsv False,
                Log ''  CBSA download failed: %'' [Str msg],
                Log ''  Metro area enrichment will be limited.'' []])
      | Inr cbsaData \<Rightarrow>
          (case parseCSV cbsaData of (header, rows) \<Rightarrow>
             let zipCol = findIndex is_zip_header header;
                 cbsaCol = findIndex is_cbsa_header header;
                 metroCol = findIndex is_metro_header header;
                 evs = [Download ZipCbsaCsv True,
                        Log ''  Downloaded % ZIP-CBSA mappings (columns: %)'' [Num (int (length rows)), StrList header]];
                 (zipMetro, evs') =
                   (if metroCol \<ge> 0 then (build_zipMetro zipCol metroCol rows [], [])
                    else if cbsaCol \<ge> 0 then
                      (case geo_names e (build_zipMetro zipCol cbsaCol rows []) of (m, evs2) \<Rightarrow>
                         (m, Log ''  ZIP-CBSA has codes but no names, downloading CBSA names...'' [] # evs2))
                    else ([], []))
             in (zipMetro, evs @ evs' @ [Log ''  Metro coverage: % ZIPs'' [Num (int (length zipMetro))]])))"

text \<open>The lines printed after the update list is built, and one sample line of the dry run.\<close>

definition geo_summary :: "stats \<Rightarrow> geo_update list \<Rightarrow> event list" where
  "geo_summary st updates =
     [Log ''Enrichment summary:'' [],
      Log ''  State fills:  %'' [Num (int (s_state st))],
      Log ''  County fills: %'' [Num (int (s_county st))],
      Log ''  Metro fills:  %'' [Num (int (s_metro st))],
      Log ''  No match:     %'' [Num (int (s_noMatch st))],
      Log ''  Total updates: %'' [Num (int (length updates))]]"

definition or_dash :: "jstring option \<Rightarrow> val" where
  "or_dash v = (case v of None \<Rightarrow> Str [8212] | Some x \<Rightarrow> if x = [] then Str [8212] else Str x)"

definition geo_sample :: "geo_update \<Rightarrow> event" where
  "geo_sample u =
     Log ''  % -> state=%, county=%, metro=%''
       [Str (u_zip_code u), or_dash (u_state_abbr u), or_dash (u_county_name u), or_dash (u_metro_area u)]"

definition geo_results :: "gaps \<Rightarrow> gaps \<Rightarrow> nat \<Rightarrow> event list" where
  "geo_results g a totalUpdated =
     [Log ''=== Results ==='' [],
      Log ''Total records: %'' [Num (int (g_total a))],
      Log ''State:  % -> % missing (filled %)''
        [Num (int (missing_state g)), Num (int (missing_state a)), Num (int (missing_state g) - int (missing_state a))],
      Log ''County: % -> % missing (filled %)''
        [Num (int (missing_county g)), Num (int (missing_county a)), Num (int (missing_county g) - int (missing_county a))],
      Log ''Metro:  % -> % missing (filled %)''
        [Num (int (missing_metro g)), Num (int (missing_metro a)), Num (int (missing_metro g) - int (missing_metro a))],
      Log ''Done. % rows updated.'' [Num (int totalUpdated)]]"

text \<open>Steps 6 and 7: the batch loop, the verification query and the end of \<open>main\<close>.\<close>

definition geo_step6 :: "nat \<Rightarrow> env \<Rightarrow> gaps \<Rightarrow> geo_update list \<Rightarrow> event list \<Rightarrow> 'a table \<Rightarrow> 'a result" where
  "geo_step6 fuel e g updates evs tbl =
     (case batch_loop fuel e UpdateGeo sql_update_geo rowCount_geo (BATCH_SIZE e) updates 0 3
             \<lparr> ls_trace = evs @ [Log ''Updating database in batches of %...'' [Num (BATCH_SIZE e)]],
               ls_table = tbl, ls_totalUpdated = 0 \<rparr> of
        (LoopUnfinished, st) \<Rightarrow> \<lparr> outcome = Unfinished, trace = ls_trace st, final = ls_table st \<rparr>
      | (LoopFailed err, st) \<Rightarrow> fatal (ls_trace st) err (ls_table st)
      | (LoopDone n, st) \<Rightarrow>
          (case query_error e n of
             Some err \<Rightarrow> fatal (ls_trace st @ [Log ''(newline)'' [], Query SelectGaps False]) err (ls_table st)
           | None \<Rightarrow>
               \<lparr> outcome = Returned,
                 trace = ls_trace st @ [Log ''(newline)'' [], Query SelectGaps True]
                           @ geo_results g (select_gaps (ls_table st)) (ls_totalUpdated st) @ [PoolEnd],
                 final = ls_table st \<rparr>))"

text \<open>
  \<open>main\<close> in two parts. \<open>geo_plan\<close> is steps 1 to 5: it ends the run (\<open>Inl\<close>, when a query
  rejects) or reaches the summary with the first gaps, \<open>updates\<close>, \<open>stats\<close> and the events so
  far (\<open>Inr\<close>). \<open>main_geo\<close> goes on from there with the summary, the dry run or steps 6 and 7.
\<close>

definition geo_plan :: "env \<Rightarrow> 'a table \<Rightarrow> 'a result + (gaps \<times> geo_update list \<times> stats \<times> event list)" where
  "geo_plan e tbl =
     (let evs0 = [Log ''=== Geographic Enrichment for Housing Dashboard ==='' [],
                  Log ''Mode: % | Batch size: %'' [Flag (DRY_RUN e), Num (BATCH_SIZE e)]]
      in case query_error e 0 of
           Some err \<Rightarrow> Inl (fatal (evs0 @ [Query SelectGaps False]) err tbl)
         | None \<Rightarrow>
             let g = select_gaps tbl;
                 evs1 = evs0 @
                   [Query SelectGaps True,
                    Log ''Current gaps: %/% missing state, %/% missing county, %/% missing metro''
                      [Num (int (missing_state g)), Num (int (g_total g)), Num (int (missing_county g)),
                       Num (int (g_total g)), Num (int (missing_metro g)), Num (int (g_total g))],
                    Log ''[1/3] Downloading ZIP-to-county dataset...'' []];
                 (zipGeo0, evs2) = geo_step2 e;
                 evs3 = evs1 @ evs2 @ [Log ''[2/3] Supplementing with zipcodes npm package...'' []]
             in case query_error e 1 of
                  Some err \<Rightarrow> Inl (fatal (evs3 @ [Query SelectAllZips False]) err tbl)
                | None \<Rightarrow>
                    let allZips = select_allZips tbl;
                        (zipGeo, npmFills) = npm_fill (zipcodes_lookup e) allZips (zipGeo0, 0);
                        evs4 = evs3 @
                          [Query SelectAllZips True,
                           Log ''  Filled % additional ZIPs from npm package'' [Num (int npmFills)],
                           Log ''  Total ZIP coverage: %/%'' [Num (int (length zipGeo)), Num (int (length allZips))],
                           Log ''[3/3] Building metro area mapping...'' []];
                        (zipMetro, evs5) = geo_step4 e;
                        evs6 = evs4 @ evs5 @ [Log ''Building updates...'' []]
                    in case query_error e 2 of
                         Some err \<Rightarrow> Inl (fatal (evs6 @ [Query SelectDbZips False]) err tbl)
                       | None \<Rightarrow>
                           let (updates, st) = build_updates zipGeo zipMetro (select_dbZips tbl)
                                  ([], \<lparr> s_state = 0, s_county = 0, s_metro = 0, s_noMatch = 0 \<rparr>)
                           in Inr (g, updates, st, evs6 @ [Query SelectDbZips True]))"

definition main_geo :: "nat \<Rightarrow> env \<Rightarrow> 'a table \<Rightarrow> 'a result" where
  "main_geo fuel e tbl =
     (case geo_plan e tbl of
        Inl r \<Rightarrow> r
      | Inr (g, updates, st, evs) \<Rightarrow>
          let evs7 = evs @ geo_summary st updates
          in if DRY_RUN e
             then \<lparr> outcome = Returned,
                    trace = evs7 @
                      [Log ''DRY RUN - no database changes made.'' [],
                       Log ''Sample updates (first 15):'' []]
                      @ map geo_sample (slice updates 0 15) @ [PoolEnd],
                    final = tbl \<rparr>
             else geo_step6 fuel e g updates evs7 tbl)"

section \<open>The metro script: main\<close>

text \<open>
  Step 2: the \<open>try\<close> block that downloads the NBER crosswalk and fills \<open>countyFipsToMetro\<close>,
  and its \<open>catch\<close>, which downloads the county FIPS file as a fallback and only prints its
  number of rows. \<open>codeCol\<close> of the source is computed and never read; it is left out.
\<close>

definition is_fips_header :: "jstring \<Rightarrow> bool" where
  "is_fips_header h =
     (ci_contains (js ''fipscounty'') h \<or> ci_contains (js ''fipscode'') h \<or> ci_contains (js ''fips'') h)"

definition is_fipsstate_header :: "jstring \<Rightarrow> bool" where
  "is_fipsstate_header h = (ci_contains (js ''fipsstate'') h \<or> ci_contains (js ''statecode'') h)"

definition is_cbsatitle_header :: "jstring \<Rightarrow> bool" where
  "is_cbsatitle_header h =
     (ci_contains (js ''cbsatitle'') h \<or> ci_contains (js ''metroname'') h \<or> ci_then (js ''cbsa'') (js ''name'') h)"

definition header_val :: "jstring list \<Rightarrow> int \<Rightarrow> val" where
  "header_val header i = (case at header i of None \<Rightarrow> Undef | Some h \<Rightarrow> Str h)"

definition metro_fallback :: "env \<Rightarrow> event list" where
  "metro_fallback e =
     (case download e CountyFipsMaster of
        Inl msg2 \<Rightarrow> [Download CountyFipsMaster False, Log ''  Fallback also failed: %'' [Str msg2]]
      | Inr data \<Rightarrow>
          [Download CountyFipsMaster True,
           Log ''  Fallback: % rows'' [Num (int (length (text_lines data)) - 1)]])"

definition metro_step2 :: "env \<Rightarrow> (jstring, jstring) jsmap \<times> event list" where
  "metro_step2 e =
     (case download e NberCrosswalk of
        Inl msg \<Rightarrow>
          ([], [Download NberCrosswalk False, Log ''  NBER download failed: %'' [Str msg]] @ metro_fallback e)
      | Inr data \<Rightarrow>
          (case text_lines data of
             [] \<Rightarrow> ([], [Download NberCrosswalk True])
           | line0 # rest \<Rightarrow>
               let header = nber_fields line0;
                   fipsCol = findIndex is_fips_header header;
                   stateCol = findIndex is_fipsstate_header header;
                   nameCol = findIndex is_cbsatitle_header header;
                   countyFipsToMetro = build_countyFipsToMetro fipsCol stateCol nameCol rest []
               in (countyFipsToMetro,
                   [Download NberCrosswalk True,
                    Log ''  NBER crosswalk: % rows, columns: %'' [Num (int (length rest)), StrList header],
                    Log ''  Using columns: fips=%, state=%, name=%''
                      [header_val header fipsCol, header_val header stateCol, header_val header nameCol],
                    Log ''  Built county FIPS -> metro map: % entries'' [Num (int (length countyFipsToMetro))]])))"

text \<open>Step 3: the \<open>try\<close> block that downloads the county FIPS file and fills \<open>countyNameToFips\<close>.\<close>

definition is_fips_exact_header :: "jstring \<Rightarrow> bool" where
  "is_fips_exact_header h = ci_whole (js ''fips'') h"

definition is_name_header :: "jstring \<Rightarrow> bool" where
  "is_name_header h = (ci_contains (js ''county_name'') h \<or> ci_contains (js ''name'') h)"

definition is_state_header :: "jstring \<Rightarrow> bool" where
  "is_state_header h = (ci_contains (js ''state_abbr'') h \<or> ci_contains (js ''state'') h)"

definition metro_step3 :: "env \<Rightarrow> (jstring, jstring) jsmap \<times> event list" where
  "metro_step3 e =
     (case download e CountyFipsMaster of
        Inl msg \<Rightarrow> ([], [Download CountyFipsMaster False, Log ''  County FIPS download failed: %'' [Str msg]])
      | Inr data \<Rightarrow>
          (case text_lines data of
             [] \<Rightarrow> ([], [Download CountyFipsMaster True])
           | line0 # rest \<Rightarrow>
               let header = parseRow line0;
                   fipsCol = findIndex is_fips_exact_header header;
                   nameCol = findIndex is_name_header header;
                   stateCol = findIndex is_state_header header;
                   countyNameToFips =
                     build_countyNameToFips (toLowerCase e) (toUpperCase e) fipsCol nameCol stateCol rest []
               in (countyNameToFips,
                   [Download CountyFipsMaster True,
                    Log ''  County FIPS: % rows, columns: %'' [Num (int (length rest)), StrList (slice header 0 8)],
                    Log ''  Built county name -> FIPS map: % entries'' [Num (int (length countyNameToFips))]])))"

definition metro_sample :: "metro_update \<Rightarrow> event" where
  "metro_sample u = Log ''  % -> %'' [Str (m_zip_code u), Str (m_metro_area u)]"

definition metro_summary :: "nat \<Rightarrow> nat \<Rightarrow> metro_update list \<Rightarrow> event list" where
  "metro_summary matched unmatched updates =
     [Log ''  Matched: % ZIPs to metro areas'' [Num (int matched)],
      Log ''  Unmatched: % (rural or name mismatch)'' [Num (int unmatched)],
      Log ''  Total updates: %'' [Num (int (length updates))]]"

text \<open>Step 5: the batch loop, the verification query and the end of \<open>main\<close>.\<close>

definition metro_step5 :: "nat \<Rightarrow> env \<Rightarrow> metro_update list \<Rightarrow> event list \<Rightarrow> 'a table \<Rightarrow> 'a result" where
  "metro_step5 fuel e updates evs tbl =
     (case batch_loop fuel e UpdateMetro sql_update_metro rowCount_metro BATCH_SIZE_metro updates 0 2
             \<lparr> ls_trace = evs @ [Log ''Updating % rows...'' [Num (int (length updates))]],
               ls_table = tbl, ls_totalUpdated = 0 \<rparr> of
        (LoopUnfinished, st) \<Rightarrow> \<lparr> outcome = Unfinished, trace = ls_trace st, final = ls_table st \<rparr>
      | (LoopFailed err, st) \<Rightarrow> fatal (ls_trace st) err (ls_table st)
      | (LoopDone n, st) \<Rightarrow>
          (case query_error e n of
             Some err \<Rightarrow> fatal (ls_trace st @ [Log ''(newline)'' [], Query SelectMissingMetro False]) err (ls_table st)
           | None \<Rightarrow>
               \<lparr> outcome = Returned,
                 trace = ls_trace st @
                   [Log ''(newline)'' [],
                    Query SelectMissingMetro True,
                    Log ''Metro enrichment complete. % rows updated.'' [Num (int (ls_totalUpdated st))],
                    Log ''   Remaining without metro: %'' [Num (int (select_missing_metro (ls_table st)))],
                    PoolEnd],
                 final = ls_table st \<rparr>))"

text \<open>
  \<open>main\<close> in two parts. \<open>metro_plan\<close> is steps 1 to 4: it ends the run (\<open>Inl\<close>: a query
  rejects, or there is no CBSA data and \<open>main\<close> returns) or reaches the summary with
  \<open>updates\<close>, \<open>matched\<close>, \<open>unmatched\<close> and the events so far (\<open>Inr\<close>).
\<close>

definition metro_plan :: "env \<Rightarrow> 'a table \<Rightarrow> 'a result + (metro_update list \<times> nat \<times> nat \<times> event list)" where
  "metro_plan e tbl =
     (let evs0 = [Log ''=== Metro Area Enrichment ==='' [], Log ''Mode: %'' [Flag (DRY_RUN e)]]
      in case query_error e 0 of
           Some err \<Rightarrow> Inl (fatal (evs0 @ [Query SelectCounties False]) err tbl)
         | None \<Rightarrow>
             let evs1 = evs0 @
                   [Query SelectCounties True,
                    Log ''Counties needing metro: %'' [Num (int (length (select_counties tbl)))],
                    Log ''Downloading CBSA delineation data...'' []];
                 (countyFipsToMetro, evs2) = metro_step2 e
             in if length countyFipsToMetro = 0
                then Inl \<lparr> outcome = Returned,
                           trace = evs1 @ evs2 @
                             [Log ''No CBSA data available. Aborting metro enrichment.'' [], PoolEnd],
                           final = tbl \<rparr>
                else
                  let (countyNameToFips, evs3) = metro_step3 e;
                      evs4 = evs1 @ evs2 @ [Log ''Downloading county FIPS codes...'' []] @ evs3
                               @ [Log ''Matching counties to metro areas...'' []]
                  in case query_error e 1 of
                       Some err \<Rightarrow> Inl (fatal (evs4 @ [Query SelectZips False]) err tbl)
                     | None \<Rightarrow>
                         (case match_rows (toLowerCase e) countyNameToFips countyFipsToMetro (select_zips tbl) ([], 0, 0) of
                            (updates, matched, unmatched) \<Rightarrow>
                              Inr (updates, matched, unmatched, evs4 @ [Query SelectZips True])))"

definition main_metro :: "nat \<Rightarrow> env \<Rightarrow> 'a table \<Rightarrow> 'a result" where
  "main_metro fuel e tbl =
     (case metro_plan e tbl of
        Inl r \<Rightarrow> r
      | Inr (updates, matched, unmatched, evs) \<Rightarrow>
          let evs5 = evs @ metro_summary matched unmatched updates
          in if DRY_RUN e
             then \<lparr> outcome = Returned,
                    trace = evs5 @ [Log ''DRY RUN - sample updates (first 15):'' []]
                      @ map metro_sample (slice updates 0 15) @ [PoolEnd],
                    final = tbl \<rparr>
             else metro_step5 fuel e updates evs5 tbl)"

section \<open>Notions used in the statements and proofs\<close>






text \<open>
  The statements of a trace, in order, and the batches of its \<open>UPDATE\<close> statements.
\<close>

fun stmts :: "event list \<Rightarrow> stmt list" where
  "stmts [] = []"
| "stmts (Query q ok # evs) = q # stmts evs"
| "stmts (ev # evs) = stmts evs"

text \<open>
  A list cut into consecutive pieces of \<open>n\<close> elements, the last one possibly shorter: what
  the batch loop should send, written without the loop's index.
\<close>

function chunks :: "nat \<Rightarrow> 'a list \<Rightarrow> 'a list list" where
  "chunks n xs = (if n = 0 \<or> xs = [] then [] else take n xs # chunks n (drop n xs))"
  by pat_completeness auto
termination
  by (relation "measure (\<lambda>(n, xs). length xs)") auto

declare chunks.simps [simp del]

text \<open>A small table and environment, on which the statements below are evaluated.\<close>

definition ex_table :: "unit table" where
  "ex_table =
     [\<lparr> zip_code = js ''10001'', state_abbr = None, county_name = Some [], metro_area = None, updated_at = 0 \<rparr>,
      \<lparr> zip_code = js ''90210'', state_abbr = Some (js ''CA''), county_name = Some (js ''Los Angeles County''),
        metro_area = Some (js ''LA''), updated_at = 0 \<rparr>,
      \<lparr> zip_code = js ''35004'', state_abbr = Some (js ''AL''), county_name = Some (js ''St. Clair County''),
        metro_area = None, updated_at = 0 \<rparr>]"

definition ex_download :: "url \<Rightarrow> jstring + jstring" where
  "ex_download u =
     (case u of
        GeoDataCsv \<Rightarrow> Inr (js ''state_abbr,zipcode,county'' @ [LF] @ js ''NY,10001,Kings'')
      | ZipCbsaCsv \<Rightarrow> Inr (js ''zip,cbsa'' @ [LF] @ js ''10001,35620'')
      | CbsaNamesCsv \<Rightarrow> Inr (js ''code,title'' @ [LF] @ js ''35620,NYC'')
      | NberCrosswalk \<Rightarrow> Inr (js ''cbsatitle,statecode,fipscounty'' @ [LF] @ js ''Bham,01,115'')
      | CountyFipsMaster \<Rightarrow> Inr (js ''fips,county_name,state_abbr'' @ [LF] @ js ''1115,St. Clair County,AL''))"

definition ex_env :: env where
  "ex_env = \<lparr> DRY_RUN = False, batch_size_arg = None, download = ex_download,
              zipcodes_lookup = (\<lambda>z. None), query_error = (\<lambda>n. None), NOW = (\<lambda>n. 7),
              toLowerCase = ascii_toLowerCase, toUpperCase = ascii_toUpperCase \<rparr>"

text \<open>The batches of the \<open>UPDATE\<close> statements among a list of statements, per script.\<close>

fun geo_batches :: "stmt list \<Rightarrow> geo_update list list" where
  "geo_batches [] = []"
| "geo_batches (UpdateGeo b # qs) = b # geo_batches qs"
| "geo_batches (q # qs) = geo_batches qs"

fun metro_batches :: "stmt list \<Rightarrow> metro_update list list" where
  "metro_batches [] = []"
| "metro_batches (UpdateMetro b # qs) = b # metro_batches qs"
| "metro_batches (q # qs) = metro_batches qs"

text \<open>The update that geo-enrich.js plans for the example table.\<close>

definition ex_update :: geo_update where
  "ex_update = \<lparr> u_zip_code = js ''10001'', u_state_abbr = Some (js ''NY''),
       u_county_name = Some (js ''Kings County''), u_metro_area = Some (js ''NYC'') \<rparr>"

text \<open>
  The chain of the metro script for one row, as the claim words it: the county name in
  lower case; the state abbreviation through \<open>STATE_FIPS\<close>, which only has to give a value;
  the county FIPS code under the full name or else under the name without its suffix; the
  CBSA title of that code. \<open>gated\<close> says that the row gets as far as the lookups, and
  \<open>planned_metro\<close> is the update the chain gives, if any.
\<close>

definition metro_chain :: "(jstring \<Rightarrow> jstring) \<Rightarrow> (jstring, jstring) jsmap \<Rightarrow> (jstring, jstring) jsmap \<Rightarrow> 'a db_row_scheme \<Rightarrow> jstring option" where
  "metro_chain lc countyNameToFips countyFipsToMetro row =
     (case state_abbr row of
        None \<Rightarrow> None
      | Some state \<Rightarrow>
          let county = lc (case county_name row of None \<Rightarrow> [] | Some c \<Rightarrow> c);
              full = map_get countyNameToFips (name_key state county);
              short = map_get countyNameToFips (name_key state (trim (replace_end match_suffixes county)));
              fips = (if truthy full then full else short)
          in if has_stateFips state \<and> county \<noteq> [] \<and> truthy fips
             then (case fips of
                     None \<Rightarrow> None
                   | Some f \<Rightarrow> if truthy (map_get countyFipsToMetro f) then map_get countyFipsToMetro f else None)
             else None)"

definition gated :: "(jstring \<Rightarrow> jstring) \<Rightarrow> 'a db_row_scheme \<Rightarrow> bool" where
  "gated lc row =
     (case state_abbr row of
        None \<Rightarrow> False
      | Some state \<Rightarrow> has_stateFips state \<and> lc (case county_name row of None \<Rightarrow> [] | Some c \<Rightarrow> c) \<noteq> [])"

definition planned_metro :: "(jstring \<Rightarrow> jstring) \<Rightarrow> (jstring, jstring) jsmap \<Rightarrow> (jstring, jstring) jsmap \<Rightarrow> 'a db_row_scheme \<Rightarrow> metro_update list" where
  "planned_metro lc countyNameToFips countyFipsToMetro row =
     (case metro_chain lc countyNameToFips countyFipsToMetro row of
        None \<Rightarrow> []
      | Some metro \<Rightarrow> [\<lparr> m_zip_code = zip_code row, m_metro_area = metro \<rparr>])"

text \<open>
  A row whose state abbreviation (FM, Micronesia) is not in \<open>STATE_FIPS\<close>, with files that
  hold its county and the county's metro area.
\<close>

definition fm_table :: "unit table" where
  "fm_table =
     [\<lparr> zip_code = js ''96943'', state_abbr = Some (js ''FM''), county_name = Some (js ''Yap''),
        metro_area = None, updated_at = 0 \<rparr>]"

definition fm_env :: env where
  "fm_env = ex_env\<lparr> download := (\<lambda>u. case u of
       NberCrosswalk \<Rightarrow> Inr (js ''cbsatitle,statecode,fipscounty'' @ [LF] @ js ''Yap Metro,64,002'')
     | CountyFipsMaster \<Rightarrow> Inr (js ''fips,county_name,state_abbr'' @ [LF] @ js ''64002,Yap,FM'')
     | _ \<Rightarrow> Inl (js ''offline'')) \<rparr>"













section \<open>The CSV row parser: proofs\<close>




















section \<open>The batch loop: proofs\<close>

lemma stmts_append: "stmts (a @ b) = stmts a @ stmts b"
  by (induction a rule: stmts.induct) simp_all

lemma geo_batches_append: "geo_batches (a @ b) = geo_batches a @ geo_batches b"
  by (induction a rule: geo_batches.induct) simp_all

lemma metro_batches_append: "metro_batches (a @ b) = metro_batches a @ metro_batches b"
  by (induction a rule: metro_batches.induct) simp_all

lemma geo_batches_map: "geo_batches (map UpdateGeo bs) = bs"
  by (induction bs) simp_all

lemma metro_batches_map: "metro_batches (map UpdateMetro bs) = bs"
  by (induction bs) simp_all

lemma concat_chunks: "0 < n \<Longrightarrow> concat (chunks n xs) = xs"
proof (induction n xs rule: chunks.induct)
  case (1 n xs)
  show ?case
  proof (cases "xs = []")
    case True
    then show ?thesis by (simp add: chunks.simps)
  next
    case False
    with 1 show ?thesis by (subst chunks.simps) simp
  qed
qed

lemma chunks_bounds: "b \<in> set (chunks n xs) \<Longrightarrow> b \<noteq> [] \<and> length b \<le> n"
proof (induction n xs rule: chunks.induct)
  case (1 n xs)
  show ?case
  proof (cases "n = 0 \<or> xs = []")
    case True
    with 1 show ?thesis by (simp add: chunks.simps)
  next
    case False
    from "1.prems" False have "b = take n xs \<or> b \<in> set (chunks n (drop n xs))"
      by (subst (asm) chunks.simps) auto
    then show ?thesis using False "1.IH" by auto
  qed
qed

lemma length_chunks_le: "length (chunks n xs) \<le> length xs"
proof (induction n xs rule: chunks.induct)
  case (1 n xs)
  show ?case
  proof (cases "n = 0 \<or> xs = []")
    case True
    then show ?thesis by (simp add: chunks.simps)
  next
    case False
    then have "length (chunks n (drop n xs)) \<le> length xs - n" using 1 by simp
    moreover have "0 < n" "0 < length xs" using False by auto
    ultimately have "Suc (length (chunks n (drop n xs))) \<le> length xs" by arith
    then show ?thesis using False by (subst chunks.simps) simp
  qed
qed

text \<open>All pieces but the last are full.\<close>

lemma chunks_full: "0 < n \<Longrightarrow> Suc j < length (chunks n xs) \<Longrightarrow> length (chunks n xs ! j) = n"
proof (induction n xs arbitrary: j rule: chunks.induct)
  case (1 n xs)
  have ne: "\<not> (n = 0 \<or> xs = [])" using "1.prems" by (auto simp: chunks.simps)
  have ch: "chunks n xs = take n xs # chunks n (drop n xs)"
    using ne by (subst chunks.simps) simp
  show ?case
  proof (cases j)
    case 0
    have "chunks n (drop n xs) \<noteq> []" using "1.prems" ch 0 by auto
    then have "drop n xs \<noteq> []" by (auto simp: chunks.simps)
    then have "n < length xs" by simp
    then show ?thesis using 0 ch by simp
  next
    case (Suc i)
    have "Suc i < length (chunks n (drop n xs))" using "1.prems" ch Suc by simp
    from "1.IH"[OF ne "1.prems"(1) this] show ?thesis using ch Suc by simp
  qed
qed

lemma slice_chunk:
  "0 < bs \<Longrightarrow> slice us (int k) (int k + bs) = take (nat bs) (drop k us)"
  by (auto simp: slice_def slice_index_def Let_def min_def nat_add_distrib)

lemma slice_chunk':
  "0 < bs \<Longrightarrow> slice us (int k) (int (k + nat bs)) = take (nat bs) (drop k us)"
  using slice_chunk[of bs us k] by simp

lemma slice_negative:
  "i < 0 \<Longrightarrow> bs < 0 \<Longrightarrow> slice us i (i + bs) = []"
  by (auto simp: slice_def slice_index_def Let_def)

lemma slice_zero_negative:
  "bs < 0 \<Longrightarrow> slice us 0 bs = take (length us - nat (- bs)) us"
proof -
  assume "bs < 0"
  then have "nat (max (int (length us) + bs) 0) = length us - nat (- bs)" by arith
  with \<open>bs < 0\<close> show ?thesis by (simp add: slice_def slice_index_def Let_def)
qed


text \<open>
  With a positive batch size and no failing statement the loop ends, given fuel for its
  tests, and has sent exactly the pieces of \<open>chunks\<close>, in order.
\<close>

lemma batch_loop_positive:
  assumes bs: "0 < bs" and ok: "\<forall>j. query_error e j = None"
  shows "length (chunks (nat bs) (drop k us)) < fuel \<Longrightarrow>
     (\<exists>st'. batch_loop fuel e mk exec cnt bs us (int k) n st
              = (LoopDone (n + length (chunks (nat bs) (drop k us))), st')
            \<and> stmts (ls_trace st') = stmts (ls_trace st) @ map mk (chunks (nat bs) (drop k us)))"
proof (induction fuel arbitrary: k n st)
  case 0
  then show ?case by simp
next
  case (Suc fuel)
  show ?case
  proof (cases "k < length us")
    case False
    then have "chunks (nat bs) (drop k us) = []" by (simp add: chunks.simps)
    with False show ?thesis by simp
  next
    case True
    let ?b = "take (nat bs) (drop k us)"
    have ch: "chunks (nat bs) (drop k us) = ?b # chunks (nat bs) (drop (k + nat bs) us)"
      using True bs by (subst chunks.simps) (simp add: add.commute)
    have idx: "int k + bs = int (k + nat bs)" using bs by simp
    from Suc.prems ch have fl: "length (chunks (nat bs) (drop (k + nat bs) us)) < fuel" by simp
    define st1 where "st1 = \<lparr> ls_trace = ls_trace st @
                  [Query (mk ?b) True,
                   Log ''  Progress: %/% - % rows''
                     [Num (int k + int (length ?b)), Num (int (length us)),
                      Num (int (ls_totalUpdated st + cnt ?b (ls_table st)))]],
                ls_table = exec (NOW e n) ?b (ls_table st),
                ls_totalUpdated = ls_totalUpdated st + cnt ?b (ls_table st) \<rparr>"
    from Suc.IH[OF fl, of "n + 1" st1] obtain st' where
      run: "batch_loop fuel e mk exec cnt bs us (int (k + nat bs)) (n + 1) st1
            = (LoopDone (n + 1 + length (chunks (nat bs) (drop (k + nat bs) us))), st')"
      and tr: "stmts (ls_trace st') = stmts (ls_trace st1) @ map mk (chunks (nat bs) (drop (k + nat bs) us))"
      by blast
    have step: "batch_loop (Suc fuel) e mk exec cnt bs us (int k) n st
                 = batch_loop fuel e mk exec cnt bs us (int (k + nat bs)) (n + 1) st1"
      using True ok bs unfolding st1_def
      by (simp add: slice_chunk' Let_def idx del: of_nat_add)
    have "stmts (ls_trace st1) = stmts (ls_trace st) @ [mk ?b]"
      unfolding st1_def by (simp add: stmts_append)
    with tr have "stmts (ls_trace st') = stmts (ls_trace st) @ map mk (chunks (nat bs) (drop k us))"
      unfolding ch by simp
    moreover have "n + 1 + length (chunks (nat bs) (drop (k + nat bs) us)) = n + length (chunks (nat bs) (drop k us))"
      unfolding ch by simp
    ultimately show ?thesis using step run by simp
  qed
qed

text \<open>
  With a negative batch size and a non-empty list the index only decreases: the loop test
  never fails, whatever the fuel, and every batch after the first is empty.
\<close>

lemma batch_loop_below_zero:
  assumes bs: "bs < 0" and ne: "us \<noteq> []" and ok: "\<forall>j. query_error e j = None"
  shows "i < 0 \<Longrightarrow>
     (\<exists>st'. batch_loop fuel e mk exec cnt bs us i n st = (LoopUnfinished, st')
           \<and> stmts (ls_trace st') = stmts (ls_trace st) @ replicate fuel (mk []))"
proof (induction fuel arbitrary: i n st)
  case 0
  then show ?case by simp
next
  case (Suc fuel)
  define st1 where "st1 = \<lparr> ls_trace = ls_trace st @
                  [Query (mk []) True,
                   Log ''  Progress: %/% - % rows''
                     [Num i, Num (int (length us)),
                      Num (int (ls_totalUpdated st + cnt [] (ls_table st)))]],
                ls_table = exec (NOW e n) [] (ls_table st),
                ls_totalUpdated = ls_totalUpdated st + cnt [] (ls_table st) \<rparr>"
  have lt: "i + bs < 0" using Suc.prems bs by simp
  have step: "batch_loop (Suc fuel) e mk exec cnt bs us i n st
               = batch_loop fuel e mk exec cnt bs us (i + bs) (n + 1) st1"
    using Suc.prems bs ok ne unfolding st1_def
    by (simp add: slice_negative Let_def)
  from Suc.IH[OF lt, of "n + 1" st1] obtain st' where
    run: "batch_loop fuel e mk exec cnt bs us (i + bs) (n + 1) st1 = (LoopUnfinished, st')"
    and tr: "stmts (ls_trace st') = stmts (ls_trace st1) @ replicate fuel (mk [])"
    by blast
  have "stmts (ls_trace st1) = stmts (ls_trace st) @ [mk []]"
    unfolding st1_def by (simp add: stmts_append)
  with tr have "stmts (ls_trace st') = stmts (ls_trace st) @ replicate (Suc fuel) (mk [])"
    by (simp add: replicate_append_same)
  with step run show ?case by simp
qed

lemma batch_loop_negative:
  assumes bs: "bs < 0" and ne: "us \<noteq> []" and ok: "\<forall>j. query_error e j = None"
  shows "\<exists>st'. batch_loop (Suc fuel) e mk exec cnt bs us 0 n st = (LoopUnfinished, st')
           \<and> stmts (ls_trace st') =
               stmts (ls_trace st) @ mk (take (length us - nat (- bs)) us) # replicate fuel (mk [])"
proof -
  let ?b = "take (length us - nat (- bs)) us"
  define st1 where "st1 = \<lparr> ls_trace = ls_trace st @
                  [Query (mk ?b) True,
                   Log ''  Progress: %/% - % rows''
                     [Num (int (length ?b)), Num (int (length us)),
                      Num (int (ls_totalUpdated st + cnt ?b (ls_table st)))]],
                ls_table = exec (NOW e n) ?b (ls_table st),
                ls_totalUpdated = ls_totalUpdated st + cnt ?b (ls_table st) \<rparr>"
  have step: "batch_loop (Suc fuel) e mk exec cnt bs us 0 n st
               = batch_loop fuel e mk exec cnt bs us bs (n + 1) st1"
    using bs ok ne unfolding st1_def
    by (simp add: slice_zero_negative Let_def)
  from batch_loop_below_zero[OF bs ne ok bs, of fuel mk exec cnt "n + 1" st1] obtain st' where
    run: "batch_loop fuel e mk exec cnt bs us bs (n + 1) st1 = (LoopUnfinished, st')"
    and tr: "stmts (ls_trace st') = stmts (ls_trace st1) @ replicate fuel (mk [])"
    by blast
  have "stmts (ls_trace st1) = stmts (ls_trace st) @ [mk ?b]"
    unfolding st1_def by (simp add: stmts_append)
  with tr step run show ?thesis by simp
qed

section \<open>The runs: statements sent\<close>

lemma stmts_geo_names: "stmts (snd (geo_names e codes)) = []"
  by (simp add: geo_names_def Let_def split: sum.splits prod.splits)

lemma stmts_geo_step2: "stmts (snd (geo_step2 e)) = []"
  by (simp add: geo_step2_def Let_def split: sum.splits prod.splits)

lemma stmts_geo_names': "geo_names e codes = (m, evs) \<Longrightarrow> stmts evs = []"
  using stmts_geo_names[of e codes] by simp

lemma stmts_geo_step4: "stmts (snd (geo_step4 e)) = []"
  by (auto simp: geo_step4_def Let_def stmts_append stmts_geo_names' split: sum.splits prod.splits)

lemma stmts_geo_summary: "stmts (geo_summary st us) = []"
  by (simp add: geo_summary_def)

lemma stmts_geo_results: "stmts (geo_results g a n) = []"
  by (simp add: geo_results_def)

lemma stmts_geo_samples: "stmts (map geo_sample us) = []"
  by (induction us) (simp_all add: geo_sample_def)

lemma geo_plan_Inr:
  assumes "geo_plan e tbl = Inr (g, us, st, evs)"
  shows "stmts evs = [SelectGaps, SelectAllZips, SelectDbZips]"
    and "query_error e 0 = None" and "query_error e 1 = None" and "query_error e 2 = None"
  using assms stmts_geo_step2[of e] stmts_geo_step4[of e]
  by (auto simp: geo_plan_def Let_def stmts_append split: option.splits prod.splits)

lemma stmts_metro_fallback: "stmts (metro_fallback e) = []"
  by (simp add: metro_fallback_def split: sum.splits)

lemma stmts_metro_step2: "stmts (snd (metro_step2 e)) = []"
  by (simp add: metro_step2_def Let_def stmts_append stmts_metro_fallback split: sum.splits list.splits)

lemma stmts_metro_step3: "stmts (snd (metro_step3 e)) = []"
  by (simp add: metro_step3_def Let_def split: sum.splits list.splits)

lemma stmts_metro_summary: "stmts (metro_summary m u us) = []"
  by (simp add: metro_summary_def)

lemma stmts_metro_samples: "stmts (map metro_sample us) = []"
  by (induction us) (simp_all add: metro_sample_def)

lemma metro_plan_Inr:
  assumes "metro_plan e tbl = Inr (us, m, u, evs)"
  shows "stmts evs = [SelectCounties, SelectZips]"
    and "query_error e 0 = None" and "query_error e 1 = None"
  using assms stmts_metro_step2[of e] stmts_metro_step3[of e]
  by (auto simp: metro_plan_def Let_def stmts_append split: option.splits prod.splits if_splits)

text \<open>
  With a positive batch size and no failing statement, a run that is not a dry run
  returns, and its \<open>UPDATE\<close> statements carry the update list in consecutive pieces of at
  most \<open>BATCH_SIZE\<close> updates (\<open>concat_chunks\<close>, \<open>chunks_bounds\<close>, \<open>chunks_full\<close>): every update
  is in exactly one batch. The metro script's batch size is the constant 500.
\<close>

lemma main_geo_positive:
  assumes plan: "geo_plan e tbl = Inr (g, us, st, evs)"
    and live: "\<not> DRY_RUN e" and bs: "0 < BATCH_SIZE e"
    and ok: "\<forall>j. query_error e j = None" and fuel: "length us < fuel"
  shows "outcome (main_geo fuel e tbl) = Returned
       \<and> geo_batches (stmts (trace (main_geo fuel e tbl))) = chunks (nat (BATCH_SIZE e)) us"
proof -
  let ?st0 = "\<lparr> ls_trace = (evs @ geo_summary st us) @ [Log ''Updating database in batches of %...'' [Num (BATCH_SIZE e)]],
               ls_table = tbl, ls_totalUpdated = 0 \<rparr>"
  have "length (chunks (nat (BATCH_SIZE e)) (drop 0 us)) < fuel"
    using length_chunks_le[of "nat (BATCH_SIZE e)" us] fuel by simp
  from batch_loop_positive[OF bs ok this, of UpdateGeo sql_update_geo rowCount_geo 3 ?st0]
  obtain st' where
    run: "batch_loop fuel e UpdateGeo sql_update_geo rowCount_geo (BATCH_SIZE e) us 0 3 ?st0
            = (LoopDone (3 + length (chunks (nat (BATCH_SIZE e)) us)), st')"
    and tr: "stmts (ls_trace st') = stmts (ls_trace ?st0) @ map UpdateGeo (chunks (nat (BATCH_SIZE e)) us)"
    by auto
  have s0: "stmts (ls_trace ?st0) = [SelectGaps, SelectAllZips, SelectDbZips]"
    using geo_plan_Inr(1)[OF plan] by (simp add: stmts_append stmts_geo_summary)
  have m: "main_geo fuel e tbl =
      \<lparr> outcome = Returned,
        trace = ls_trace st' @ [Log ''(newline)'' [], Query SelectGaps True]
                  @ geo_results g (select_gaps (ls_table st')) (ls_totalUpdated st') @ [PoolEnd],
        final = ls_table st' \<rparr>"
    using plan live ok run by (simp add: main_geo_def geo_step6_def Let_def)
  from tr s0 have "stmts (ls_trace st') = [SelectGaps, SelectAllZips, SelectDbZips] @ map UpdateGeo (chunks (nat (BATCH_SIZE e)) us)"
    by simp
  then show ?thesis
    unfolding m
    by (simp add: stmts_append stmts_geo_results geo_batches_append geo_batches_map)
qed

lemma main_geo_negative:
  assumes plan: "geo_plan e tbl = Inr (g, us, st, evs)"
    and live: "\<not> DRY_RUN e" and bs: "BATCH_SIZE e < 0"
    and ok: "\<forall>j. query_error e j = None" and ne: "us \<noteq> []"
  shows "outcome (main_geo (Suc fuel) e tbl) = Unfinished
       \<and> geo_batches (stmts (trace (main_geo (Suc fuel) e tbl)))
           = take (length us - nat (- BATCH_SIZE e)) us # replicate fuel []"
proof -
  let ?st0 = "\<lparr> ls_trace = (evs @ geo_summary st us) @ [Log ''Updating database in batches of %...'' [Num (BATCH_SIZE e)]],
               ls_table = tbl, ls_totalUpdated = 0 \<rparr>"
  from batch_loop_negative[OF bs ne ok, of fuel UpdateGeo sql_update_geo rowCount_geo 3 ?st0]
  obtain st' where
    run: "batch_loop (Suc fuel) e UpdateGeo sql_update_geo rowCount_geo (BATCH_SIZE e) us 0 3 ?st0
            = (LoopUnfinished, st')"
    and tr: "stmts (ls_trace st') = stmts (ls_trace ?st0) @
               UpdateGeo (take (length us - nat (- BATCH_SIZE e)) us) # replicate fuel (UpdateGeo [])"
    by auto
  have s0: "stmts (ls_trace ?st0) = [SelectGaps, SelectAllZips, SelectDbZips]"
    using geo_plan_Inr(1)[OF plan] by (simp add: stmts_append stmts_geo_summary)
  have m: "main_geo (Suc fuel) e tbl = \<lparr> outcome = Unfinished, trace = ls_trace st', final = ls_table st' \<rparr>"
    using plan live run by (simp add: main_geo_def geo_step6_def Let_def del: batch_loop.simps)
  have r: "geo_batches (replicate fuel (UpdateGeo [])) = replicate fuel []"
    by (induction fuel) simp_all
  from tr s0 have "stmts (ls_trace st') = [SelectGaps, SelectAllZips, SelectDbZips] @
               UpdateGeo (take (length us - nat (- BATCH_SIZE e)) us) # replicate fuel (UpdateGeo [])"
    by simp
  then show ?thesis
    unfolding m using r by simp
qed

lemma main_geo_no_fuel:
  assumes plan: "geo_plan e tbl = Inr (g, us, st, evs)" and live: "\<not> DRY_RUN e"
  shows "outcome (main_geo 0 e tbl) = Unfinished \<and> geo_batches (stmts (trace (main_geo 0 e tbl))) = []"
  using plan live geo_plan_Inr(1)[OF plan]
  by (simp add: main_geo_def geo_step6_def Let_def stmts_append stmts_geo_summary)

lemma main_metro_positive:
  assumes plan: "metro_plan e tbl = Inr (us, m, u, evs)"
    and live: "\<not> DRY_RUN e"
    and ok: "\<forall>j. query_error e j = None" and fuel: "length us < fuel"
  shows "outcome (main_metro fuel e tbl) = Returned
       \<and> metro_batches (stmts (trace (main_metro fuel e tbl))) = chunks 500 us"
proof -
  let ?st0 = "\<lparr> ls_trace = (evs @ metro_summary m u us) @ [Log ''Updating % rows...'' [Num (int (length us))]],
               ls_table = tbl, ls_totalUpdated = 0 \<rparr>"
  have bs: "0 < BATCH_SIZE_metro" by (simp add: BATCH_SIZE_metro_def)
  have n: "nat BATCH_SIZE_metro = 500" by (simp add: BATCH_SIZE_metro_def)
  have "length (chunks (nat BATCH_SIZE_metro) (drop 0 us)) < fuel"
    using length_chunks_le[of "nat BATCH_SIZE_metro" us] fuel by simp
  from batch_loop_positive[OF bs ok this, of UpdateMetro sql_update_metro rowCount_metro 2 ?st0]
  obtain st' where
    run: "batch_loop fuel e UpdateMetro sql_update_metro rowCount_metro BATCH_SIZE_metro us 0 2 ?st0
            = (LoopDone (2 + length (chunks 500 us)), st')"
    and tr: "stmts (ls_trace st') = stmts (ls_trace ?st0) @ map UpdateMetro (chunks 500 us)"
    unfolding n by auto
  have s0: "stmts (ls_trace ?st0) = [SelectCounties, SelectZips]"
    using metro_plan_Inr(1)[OF plan] by (simp add: stmts_append stmts_metro_summary)
  have mm: "main_metro fuel e tbl =
      \<lparr> outcome = Returned,
        trace = ls_trace st' @
                   [Log ''(newline)'' [],
                    Query SelectMissingMetro True,
                    Log ''Metro enrichment complete. % rows updated.'' [Num (int (ls_totalUpdated st'))],
                    Log ''   Remaining without metro: %'' [Num (int (select_missing_metro (ls_table st')))],
                    PoolEnd],
        final = ls_table st' \<rparr>"
    using plan live ok run by (simp add: main_metro_def metro_step5_def Let_def)
  from tr s0 have "stmts (ls_trace st') = [SelectCounties, SelectZips] @ map UpdateMetro (chunks 500 us)"
    by simp
  then show ?thesis
    unfolding mm
    by (simp add: stmts_append metro_batches_append metro_batches_map)
qed

section \<open>Evaluation on the example\<close>

lemmas char_defs = js_def LF_def DQUOTE_def COMMA_def CR_def BAR_def ZERO_def
lemmas str_defs = trim_def is_ws_def padStart_def split_str_def text_lines_def parseRow_def parseCSV_def
  cell_def at_def findIndex_def indexOf_def map_set_def map_get_def map_has_def truthy_def
  ascii_upper_def ascii_lower_def line_terminator_def ci_whole_def strip_quotes_def
  slice_def slice_index_def
lemmas db_defs = missing_def select_gaps_def select_allZips_def select_dbZips_def select_counties_def
  select_zips_def select_missing_metro_def coalesce_def update_row_geo_def sql_update_geo_def
  rowCount_geo_def update_row_metro_def sql_update_metro_def rowCount_metro_def
lemmas geo_defs = geo_state_def geo_county_def update_for_def geo_step2_def is_zip_header_def
  is_cbsa_header_def is_metro_header_def is_code_header_def is_title_header_def geo_names_def
  geo_step4_def
lemmas ex_defs = ex_table_def ex_download_def ex_env_def

lemma ex_geo_plan_negative:
  "\<exists>g st evs. geo_plan (ex_env\<lparr> batch_size_arg := Some (- 1) \<rparr>) ex_table = Inr (g, [ex_update], st, evs)"
  by (simp add: geo_plan_def BATCH_SIZE_def geo_defs ex_defs str_defs char_defs db_defs ex_update_def Let_def)

text \<open>
  Claim C4, at a negative batch size. \<open>--batch-size=-1\<close> gives \<open>BATCH_SIZE = -1\<close> (only
  \<open>NaN\<close> and \<open>0\<close> fall back to 500). On the example, geo-enrich.js plans one update; the
  loop index then only decreases, so the run does not end whatever the fuel, and no
  \<open>UPDATE\<close> statement it sends carries the update: the batches are all empty.
\<close>

theorem geo_negative_batch_size_never_ends:
  "(\<exists>g st evs. geo_plan (ex_env\<lparr> batch_size_arg := Some (- 1) \<rparr>) ex_table = Inr (g, [ex_update], st, evs))
   \<and> (\<forall>fuel. outcome (main_geo fuel (ex_env\<lparr> batch_size_arg := Some (- 1) \<rparr>) ex_table) = Unfinished
            \<and> concat (geo_batches (stmts (trace (main_geo fuel (ex_env\<lparr> batch_size_arg := Some (- 1) \<rparr>) ex_table)))) = [])"
proof -
  let ?e = "ex_env\<lparr> batch_size_arg := Some (- 1) \<rparr>"
  from ex_geo_plan_negative obtain g st evs where
    plan: "geo_plan ?e ex_table = Inr (g, [ex_update], st, evs)" by blast
  have live: "\<not> DRY_RUN ?e" by (simp add: ex_env_def)
  have bs: "BATCH_SIZE ?e < 0" by (simp add: BATCH_SIZE_def)
  have ok: "\<forall>j. query_error ?e j = None" by (simp add: ex_env_def)
  have "outcome (main_geo fuel ?e ex_table) = Unfinished
        \<and> concat (geo_batches (stmts (trace (main_geo fuel ?e ex_table)))) = []" for fuel
  proof (cases fuel)
    case 0
    then show ?thesis using main_geo_no_fuel[OF plan live] by simp
  next
    case (Suc k)
    have "nat (- BATCH_SIZE ?e) = 1" by (simp add: BATCH_SIZE_def)
    then show ?thesis using main_geo_negative[OF plan live bs ok, of k] Suc by simp
  qed
  with plan show ?thesis by blast
qed

section \<open>The metro script: the match\<close>

lemma find_fips_eq:
  "find_fips N state county =
     (if truthy (map_get N (name_key state county)) then map_get N (name_key state county)
      else map_get N (name_key state (trim (replace_end match_suffixes county))))"
  by (simp add: find_fips_def Let_def)

lemma match_row_chain:
  "match_row lc N F row (us, m, u) =
     (us @ planned_metro lc N F row,
      m + length (planned_metro lc N F row),
      u + (if gated lc row \<and> metro_chain lc N F row = None then 1 else 0))"
proof (cases "state_abbr row")
  case None
  then show ?thesis
    by (simp add: match_row_def planned_metro_def metro_chain_def gated_def Let_def)
next
  case (Some state)
  define county where "county = lc (case county_name row of None \<Rightarrow> [] | Some c \<Rightarrow> c)"
  show ?thesis
  proof (cases "has_stateFips state \<and> county \<noteq> []")
    case False
    then show ?thesis using Some
      by (auto simp: match_row_def planned_metro_def metro_chain_def gated_def Let_def county_def)
  next
    case gate: True
    define fips where "fips = find_fips N state county"
    have mc: "metro_chain lc N F row =
        (if truthy fips
         then (case fips of None \<Rightarrow> None | Some f \<Rightarrow> if truthy (map_get F f) then map_get F f else None)
         else None)"
      using Some gate unfolding metro_chain_def fips_def find_fips_eq county_def by (simp add: Let_def)
    have g: "gated lc row" using Some gate by (simp add: gated_def county_def)
    have mr: "match_row lc N F row (us, m, u) =
        (case fips of
           None \<Rightarrow> (us, m, u + 1)
         | Some f \<Rightarrow>
             if f = [] then (us, m, u + 1)
             else (case map_get F f of
                     None \<Rightarrow> (us, m, u + 1)
                   | Some metro \<Rightarrow>
                       if metro = [] then (us, m, u + 1)
                       else (us @ [\<lparr> m_zip_code = zip_code row, m_metro_area = metro \<rparr>], m + 1, u)))"
      using Some gate unfolding match_row_def fips_def county_def by (simp add: Let_def)
    show ?thesis
    proof (cases fips)
      case None
      then show ?thesis using mc mr g by (simp add: planned_metro_def truthy_def)
    next
      case (Some f)
      note f = this
      show ?thesis
      proof (cases "f = []")
        case True
        then show ?thesis using mc mr g f by (simp add: planned_metro_def truthy_def)
      next
        case False
        then show ?thesis using mc mr g f
          by (cases "map_get F f") (simp_all add: planned_metro_def truthy_def)
      qed
    qed
  qed
qed

lemma match_rows_chain:
  "match_rows lc N F rows (us, m, u) =
     (us @ concat (map (planned_metro lc N F) rows),
      m + length (concat (map (planned_metro lc N F) rows)),
      u + length (filter (\<lambda>row. gated lc row \<and> metro_chain lc N F row = None) rows))"
proof (induction rows arbitrary: us m u)
  case Nil
  then show ?case by simp
next
  case (Cons row rows)
  show ?case
    by (simp only: match_rows.simps match_row_chain Cons.IH) simp
qed

lemmas metro_defs = ascii_toLowerCase_def ascii_toUpperCase_def STATE_FIPS_def Object_prototype_keys_def
  has_stateFips_def nber_fields_def name_key_def build_suffixes_def match_suffixes_def find_fips_def
  match_row_def is_fips_header_def is_fipsstate_header_def is_cbsatitle_header_def header_val_def
  metro_fallback_def metro_step2_def is_fips_exact_header_def is_name_header_def is_state_header_def
  metro_step3_def

lemma fm_step2: "fst (metro_step2 fm_env) = [(js ''64002'', js ''Yap Metro'')]"
  by (simp add: fm_env_def ex_defs metro_defs str_defs char_defs Let_def)

lemma fm_step3: "fst (metro_step3 fm_env) = [(js ''FM|yap'', js ''64002'')]"
  by (simp add: fm_env_def ex_defs metro_defs str_defs char_defs Let_def)

lemma not_has_FM: "\<not> has_stateFips (js ''FM'')"
  by (simp add: metro_defs str_defs char_defs)

lemma metro_plan_match:
  assumes "metro_plan e tbl = Inr (updates, matched, unmatched, evs)"
  shows "updates = concat (map (planned_metro (toLowerCase e) (fst (metro_step3 e)) (fst (metro_step2 e))) (select_zips tbl))
       \<and> matched = length updates
       \<and> unmatched = length (filter (\<lambda>row. gated (toLowerCase e) row
            \<and> metro_chain (toLowerCase e) (fst (metro_step3 e)) (fst (metro_step2 e)) row = None) (select_zips tbl))"
proof -
  from assms have
    "match_rows (toLowerCase e) (fst (metro_step3 e)) (fst (metro_step2 e)) (select_zips tbl) ([], 0, 0)
       = (updates, matched, unmatched)"
    by (auto simp: metro_plan_def Let_def split: option.splits prod.splits if_splits)
  then show ?thesis unfolding match_rows_chain by auto
qed

text \<open>
  Claim C1, as amended. When the metro script reaches the match, its update list holds,
  in the order of the selected rows (state present, metro area missing), one update per
  row whose chain gives a metro area, and nothing for the other rows: the state must have
  a truthy \<open>STATE_FIPS[state]\<close>, the county name in lower case must not be empty, the county
  FIPS code must be found under \<open>state|county\<close> or under the name without its suffix, and
  the code must have a CBSA title. \<open>matched\<close> counts the updates and \<open>unmatched\<close> the rows
  that pass the gate and get no metro area.
\<close>

theorem metro_updates_by_chain:
  assumes "metro_plan e tbl = Inr (updates, matched, unmatched, evs)"
  shows "updates = concat (map (planned_metro (toLowerCase e) (fst (metro_step3 e)) (fst (metro_step2 e))) (select_zips tbl))
       \<and> matched = length updates
       \<and> unmatched = length (filter (\<lambda>row. gated (toLowerCase e) row
            \<and> metro_chain (toLowerCase e) (fst (metro_step3 e)) (fst (metro_step2 e)) row = None) (select_zips tbl))"
  using assms by (rule metro_plan_match)

lemma ex_metro_plan:
  "\<exists>evs. metro_plan ex_env ex_table =
     Inr ([\<lparr> m_zip_code = js ''35004'', m_metro_area = js ''Bham'' \<rparr>], 1, 0, evs)"
  by (simp add: metro_plan_def ex_defs metro_defs str_defs char_defs db_defs Let_def)

theorem metro_updates_by_chain_witness:
  "(\<exists>evs. metro_plan ex_env ex_table =
      Inr ([\<lparr> m_zip_code = js ''35004'', m_metro_area = js ''Bham'' \<rparr>], 1, 0, evs))
   \<and> concat (map (planned_metro (toLowerCase ex_env) (fst (metro_step3 ex_env)) (fst (metro_step2 ex_env)))
         (select_zips ex_table)) = [\<lparr> m_zip_code = js ''35004'', m_metro_area = js ''Bham'' \<rparr>]"
proof -
  from ex_metro_plan obtain evs where
    p: "metro_plan ex_env ex_table = Inr ([\<lparr> m_zip_code = js ''35004'', m_metro_area = js ''Bham'' \<rparr>], 1, 0, evs)"
    by blast
  from metro_updates_by_chain[OF p] have
    "concat (map (planned_metro (toLowerCase ex_env) (fst (metro_step3 ex_env)) (fst (metro_step2 ex_env)))
         (select_zips ex_table)) = [\<lparr> m_zip_code = js ''35004'', m_metro_area = js ''Bham'' \<rparr>]"
    by simp
  with p show ?thesis by blast
qed

text \<open>
  Claim C1 as stated fails: for the Micronesia row both lookups succeed on the maps the
  script built, and no update is emitted, because \<open>STATE_FIPS\<close> has no entry for FM and
  the row is skipped before the lookups.
\<close>

theorem metro_gate_counterexample:
  "select_zips fm_table = fm_table
   \<and> find_fips (fst (metro_step3 fm_env)) (js ''FM'') (toLowerCase fm_env (js ''Yap'')) = Some (js ''64002'')
   \<and> map_get (fst (metro_step2 fm_env)) (js ''64002'') = Some (js ''Yap Metro'')
   \<and> (\<exists>evs. metro_plan fm_env fm_table = Inr ([], 0, 0, evs))"
proof -
  have a: "select_zips fm_table = fm_table"
    by (simp add: fm_table_def db_defs char_defs)
  have b: "find_fips (fst (metro_step3 fm_env)) (js ''FM'') (toLowerCase fm_env (js ''Yap'')) = Some (js ''64002'')"
    unfolding fm_step3 by (simp add: fm_env_def ex_defs metro_defs str_defs char_defs)
  have c: "map_get (fst (metro_step2 fm_env)) (js ''64002'') = Some (js ''Yap Metro'')"
    unfolding fm_step2 by (simp add: str_defs char_defs)
  have d: "\<exists>evs. metro_plan fm_env fm_table = Inr ([], 0, 0, evs)"
    by (simp add: metro_plan_def fm_env_def fm_table_def ex_defs metro_defs str_defs char_defs db_defs Let_def)
  from a b c d show ?thesis by blast
qed

section \<open>The keys of the lookup maps\<close>




























section \<open>Existing values are kept\<close>


























end
